theory Spec2Isabelle
  imports Complex_Main "HOL-Library.Multiset" "HOL-Library.Char_ord"
    "HOL-Library.List_Lexorder" "HOL-Library.Product_Lexorder" "HOL-Library.Word"
begin

section \<open>Python and SQL values\<close>

text \<open>
  Exceptions of the Python runtime that the modelled functions can meet. A function that
  can raise returns \<open>error + 'a\<close>, with \<open>Inl\<close> for the raised exception.
\<close>

datatype error =
    AttributeError
  | KeyError
  | DateParseError
  | TypeError
  | UnboundLocalError
  | ConnectionError
  | DatabaseError
  | DivisionByZero

section \<open>Company-name normalisation (\<open>adjust_company_name\<close> in \<open>fetch_openings_company\<close>)\<close>

text \<open>
  \<open>re.search(r'\((.*?)\)', name)\<close>: the leftmost \<open>(\<close> from which a lazy run of
  characters other than a line break reaches a \<open>)\<close>. \<open>lazy_group\<close> is the part of the
  pattern after the opening parenthesis, \<open>(.*?)\)\<close>, matched at the head of its argument:
  it stops at the first \<open>)\<close> and fails on a line break or at the end of the string.
\<close>

fun lazy_group :: "string \<Rightarrow> string option" where
  "lazy_group [] = None"
| "lazy_group (c # cs) =
     (if c = CHR '')'' then Some []
      else if c = CHR 0x0A then None
      else map_option (Cons c) (lazy_group cs))"

fun re_search_paren :: "string \<Rightarrow> string option" where
  "re_search_paren [] = None"
| "re_search_paren (c # cs) =
     (if c = CHR ''('' then
        (case lazy_group cs of
           Some g \<Rightarrow> Some g
         | None \<Rightarrow> re_search_paren cs)
      else re_search_paren cs)"

text \<open>\<open>name.split('_')[0]\<close>: the text before the first underscore.\<close>

definition split_underscore_first :: "string \<Rightarrow> string" where
  "split_underscore_first name = takeWhile (\<lambda>c. c \<noteq> CHR ''_'') name"

text \<open>
  \<open>adjust_company_name\<close>. In the second branch \<open>re.search\<close> may return \<open>None\<close>, and
  \<open>.group(1)\<close> on \<open>None\<close> raises \<open>AttributeError\<close>.
\<close>

definition adjust_company_name :: "string \<Rightarrow> error + string" where
  "adjust_company_name name =
     (if CHR ''_'' \<in> set name then Inr (split_underscore_first name)
      else if CHR ''('' \<in> set name \<and> CHR '')'' \<in> set name then
        (case re_search_paren name of
           None \<Rightarrow> Inl AttributeError
         | Some g \<Rightarrow> Inr g)
      else Inr name)"

section \<open>SQL expressions of the statistics and tool queries\<close>

text \<open>
  A nullable SQL number is a \<open>real option\<close> (\<open>None\<close> is \<open>NULL\<close>). The queries cast to
  \<open>FLOAT\<close>; the model computes with exact reals and does not model rounding. Arithmetic
  is strict in \<open>NULL\<close>; division by a non-null zero is the error PostgreSQL raises.
\<close>

definition NULLIF :: "real option \<Rightarrow> real \<Rightarrow> real option" where
  "NULLIF a b = (case a of None \<Rightarrow> None | Some x \<Rightarrow> if x = b then None else Some x)"

definition COALESCE :: "real option \<Rightarrow> real \<Rightarrow> real" where
  "COALESCE a b = (case a of None \<Rightarrow> b | Some x \<Rightarrow> x)"

definition sql_minus :: "real option \<Rightarrow> real option \<Rightarrow> real option" where
  "sql_minus a b =
     (case a of None \<Rightarrow> None
      | Some x \<Rightarrow> (case b of None \<Rightarrow> None | Some y \<Rightarrow> Some (x - y)))"

definition sql_times :: "real option \<Rightarrow> real option \<Rightarrow> real option" where
  "sql_times a b =
     (case a of None \<Rightarrow> None
      | Some x \<Rightarrow> (case b of None \<Rightarrow> None | Some y \<Rightarrow> Some (x * y)))"

definition sql_divide :: "real option \<Rightarrow> real option \<Rightarrow> error + real option" where
  "sql_divide a b =
     (case a of None \<Rightarrow> Inr None
      | Some x \<Rightarrow>
          (case b of None \<Rightarrow> Inr None
           | Some y \<Rightarrow> if y = 0 then Inl DivisionByZero else Inr (Some (x / y))))"

text \<open>
  \<open>COALESCE(((cur - prev) / NULLIF(CAST(prev AS FLOAT), 0)) * 100.0, 0)\<close>, the
  expression of each \<open>*_change_pct\<close> column of \<open>fetch_openings_statistics_metrics\<close>.
\<close>

definition change_pct :: "real option \<Rightarrow> real option \<Rightarrow> error + real" where
  "change_pct cur prev =
     (case sql_divide (sql_minus cur prev) (NULLIF prev 0) of
        Inl e \<Rightarrow> Inl e
      | Inr q \<Rightarrow> Inr (COALESCE (sql_times q (Some 100)) 0))"

text \<open>
  \<open>COALESCE(tool_count::float / NULLIF(total_openings, 0) * 100, 0)\<close>, the
  \<open>percentage_of_tool\<close> column of \<open>fetch_data_tool\<close>.
\<close>

definition percentage_of_tool :: "real option \<Rightarrow> real option \<Rightarrow> error + real" where
  "percentage_of_tool tool_count total_openings =
     (case sql_divide tool_count (NULLIF total_openings 0) of
        Inl e \<Rightarrow> Inl e
      | Inr q \<Rightarrow> Inr (COALESCE (sql_times q (Some 100)) 0))"

text \<open>
  The inner select of the statistics query hands the outer one a row with the current
  value of each of the five metrics and, through \<open>LEAD\<close>, the value of the preceding
  row; the outer select list computes the row the fetcher returns.
\<close>

record 'm lead_row =
  total_openings :: "real option"
  prev_total_openings :: "real option"
  closed_openings_count :: "real option"
  prev_closed_openings_count :: "real option"
  new_openings_count :: "real option"
  prev_new_openings_count :: "real option"
  fill_rate :: "real option"
  prev_fill_rate :: "real option"
  average_weeks_to_fill :: "real option"
  prev_average_weeks_to_fill :: "real option"
  lead_crawl_date :: 'm

record statistics_fields =
  st_total_openings :: "real option"
  total_openings_change_pct :: real
  st_closed_openings_count :: "real option"
  closed_openings_change_pct :: real
  st_new_openings_count :: "real option"
  new_openings_change_pct :: real
  st_fill_rate :: "real option"
  fill_rate_change_pct :: real
  st_average_weeks_to_fill :: "real option"
  average_weeks_to_fill_change_pct :: real

text \<open>
  A fetched row: the columns other than \<open>crawl_date\<close>, and the \<open>crawl_date\<close> cell. A
  DataFrame is the list of its rows; \<open>pd.DataFrame()\<close> is the empty list and
  \<open>data.empty\<close> is \<open>data = []\<close>.
\<close>

record ('a, 'c) row =
  cols :: 'a
  crawl_date :: 'c

type_synonym ('a, 'c) frame = "('a, 'c) row list"

definition statistics_select :: "'c lead_row \<Rightarrow> error + (statistics_fields, 'c) row" where
  "statistics_select r =
     (case change_pct (total_openings r) (prev_total_openings r) of Inl e \<Rightarrow> Inl e
      | Inr p1 \<Rightarrow>
     (case change_pct (closed_openings_count r) (prev_closed_openings_count r) of Inl e \<Rightarrow> Inl e
      | Inr p2 \<Rightarrow>
     (case change_pct (new_openings_count r) (prev_new_openings_count r) of Inl e \<Rightarrow> Inl e
      | Inr p3 \<Rightarrow>
     (case change_pct (fill_rate r) (prev_fill_rate r) of Inl e \<Rightarrow> Inl e
      | Inr p4 \<Rightarrow>
     (case change_pct (average_weeks_to_fill r) (prev_average_weeks_to_fill r) of Inl e \<Rightarrow> Inl e
      | Inr p5 \<Rightarrow>
        Inr \<lparr> cols =
                \<lparr> st_total_openings = total_openings r, total_openings_change_pct = p1,
                  st_closed_openings_count = closed_openings_count r,
                  closed_openings_change_pct = p2,
                  st_new_openings_count = new_openings_count r, new_openings_change_pct = p3,
                  st_fill_rate = fill_rate r, fill_rate_change_pct = p4,
                  st_average_weeks_to_fill = average_weeks_to_fill r,
                  average_weeks_to_fill_change_pct = p5 \<rparr>,
              crawl_date = lead_crawl_date r \<rparr>)))))"

section \<open>The fetcher object: connection, logger, \<open>execute_query\<close>\<close>

datatype level = INFO | ERROR

datatype query_name =
    QNewest | QStatistics | QHistory | QRole | QTool | QCompany | QTaipei
  | QToolByRole | QToolTrends

text \<open>
  The state of one \<open>FetchReportData\<close> object with its logger: whether its connection is
  open, the log written so far, and the queries handed to the cursor so far.
\<close>

record session =
  connection_open :: bool
  logs :: "(level \<times> string) list"
  queries :: "query_name list"

definition log_info :: "string \<Rightarrow> session \<Rightarrow> session" where
  "log_info msg s = s\<lparr>logs := logs s @ [(INFO, msg)]\<rparr>"

definition log_error :: "string \<Rightarrow> session \<Rightarrow> session" where
  "log_error msg s = s\<lparr>logs := logs s @ [(ERROR, msg)]\<rparr>"

text \<open>
  \<open>execute_query\<close>. The second argument is what the cursor does with the query text:
  it raises, or \<open>fetchall\<close> returns rows. An exception is logged and turned into
  \<open>None\<close>.
\<close>

definition execute_query ::
  "query_name \<Rightarrow> error + 'r list \<Rightarrow> session \<Rightarrow> 'r list option \<times> session" where
  "execute_query q answer s =
     (let s1 = s\<lparr>queries := queries s @ [q]\<rparr> in
      case answer of
        Inr result \<Rightarrow> (Some result, s1)
      | Inl e \<Rightarrow> (None, log_error ''Failed to execute query'' s1))"

section \<open>The warehouse behind the connection\<close>

record role_fields =
  data_role :: string
  role_count :: int
  percentage_of_total :: real

record tool_fields =
  tool_rank :: int
  tool_category :: string
  tool_name :: string
  tool_percentage :: real

record company_fields =
  company_rank :: int
  company_name :: string
  opening_count :: int

record area_fields =
  county_name_eng :: string
  district_name_eng :: string
  openings_count :: int

text \<open>
  A row of \<open>rpt_data_tools_by_data_role\<close>. The tool charts add up its \<open>count\<close>
  column, which pandas holds as \<open>int64\<close>: a 64-bit word read as a signed number.
\<close>

record role_tool_fields =
  rt_data_role :: string
  rt_category :: string
  rt_tool_name :: string
  rt_count :: "64 word"

record trend_fields =
  trend_rank :: int
  trend_category :: string
  trend_tool_name :: string
  trend_tool_count :: int

text \<open>
  What the cursor answers to each query of \<open>FetchReportData\<close>; the queries that
  interpolate \<open>crawl_date\<close> are functions of it. \<open>'c\<close> is the type of the values the
  driver delivers for a \<open>crawl_date\<close> column. The row of the newest-date query is its one
  column, which is \<open>NULL\<close> (\<open>None\<close>) when the table has no date.

  Modelled from the spec: \<open>DatabaseConnector.connect_to_db\<close> (\<open>utils/database_utils.py\<close>)
  is not among the sources; after section 4.1 of the specification, opening the
  connection either succeeds or fails with \<open>ConnectionError\<close>. \<open>reachable\<close> says which.
\<close>

record 'c warehouse =
  reachable :: bool
  newest_answer :: "error + 'c option list"
  statistics_answer :: "'c \<Rightarrow> error + (statistics_fields, 'c) row list"
  history_answer :: "error + (real option, 'c) row list"
  role_answer :: "'c \<Rightarrow> error + (role_fields, 'c) row list"
  tool_answer :: "'c \<Rightarrow> error + (tool_fields, 'c) row list"
  company_answer :: "'c \<Rightarrow> error + (company_fields, 'c) row list"
  taipei_answer :: "'c \<Rightarrow> error + (area_fields, 'c) row list"
  tool_by_role_answer :: "error + (role_tool_fields, 'c) row list"
  tool_trends_answer :: "error + (trend_fields, 'c) row list"

section \<open>The fetchers of \<open>FetchReportData\<close>\<close>

text \<open>
  \<open>get_newest_crawl_date\<close>: the first column of the first row unless there is no row or
  the column is \<open>None\<close>.
\<close>

definition get_newest_crawl_date :: "'c warehouse \<Rightarrow> session \<Rightarrow> 'c option \<times> session" where
  "get_newest_crawl_date w s =
     (case execute_query QNewest (newest_answer w) s of
        (Some (Some d # rest), s1) \<Rightarrow> (Some d, s1)
      | (_, s1) \<Rightarrow> (None, log_info ''No crawl dates found.'' s1))"

text \<open>
  The eight metric fetchers are eight copies of one body: run the query through
  \<open>execute_query\<close>; \<open>if data:\<close> build the DataFrame, log and return it; \<open>else:\<close> log and
  return \<open>pd.DataFrame()\<close>; \<open>except Exception:\<close> log an error and return
  \<open>pd.DataFrame()\<close>. \<open>fetch_frame\<close> is that body; \<open>build\<close> is what the fetcher does
  between the query and the \<open>return df\<close>, and may raise.
\<close>

definition fetch_frame ::
  "query_name \<Rightarrow> error + 'r list \<Rightarrow> ('r list \<Rightarrow> error + 'f list) \<Rightarrow>
   string \<Rightarrow> string \<Rightarrow> string \<Rightarrow> session \<Rightarrow> 'f list \<times> session" where
  "fetch_frame q answer build ok_msg none_msg err_msg s =
     (case execute_query q answer s of
        (Some (r # rs), s1) \<Rightarrow>
          (case build (r # rs) of
             Inr df \<Rightarrow> (df, log_info ok_msg s1)
           | Inl e \<Rightarrow> ([], log_error err_msg s1))
      | (_, s1) \<Rightarrow> ([], log_info none_msg s1))"

definition fetch_openings_statistics_metrics ::
  "'c warehouse \<Rightarrow> 'c \<Rightarrow> session \<Rightarrow> (statistics_fields, 'c) frame \<times> session" where
  "fetch_openings_statistics_metrics w d =
     fetch_frame QStatistics (statistics_answer w d) Inr
       ''Openings statistics metrics data converted to DataFrame successfully.''
       ''No data found for the given crawl date.''
       ''Error fetching openings statistics metrics''"

definition fetch_openings_history ::
  "'c warehouse \<Rightarrow> session \<Rightarrow> (real option, 'c) frame \<times> session" where
  "fetch_openings_history w =
     fetch_frame QHistory (history_answer w) Inr
       ''Historical total openings data converted to DataFrame successfully.''
       ''No historical total openingsdata found for openings statistics.''
       ''Error fetching historical openings statistics metrics''"

definition fetch_data_role ::
  "'c warehouse \<Rightarrow> 'c \<Rightarrow> session \<Rightarrow> (role_fields, 'c) frame \<times> session" where
  "fetch_data_role w d =
     fetch_frame QRole (role_answer w d) Inr
       ''Data role information for the pie plot converted to DataFrame successfully.''
       ''No data role information found for the specified crawl date.''
       ''Error fetching data role information''"

definition fetch_data_tool ::
  "'c warehouse \<Rightarrow> 'c \<Rightarrow> session \<Rightarrow> (tool_fields, 'c) frame \<times> session" where
  "fetch_data_tool w d =
     fetch_frame QTool (tool_answer w d) Inr
       ''Top three data tools information converted to DataFrame successfully.''
       ''No data tools information found for the specified crawl date.''
       ''Error fetching data tools information''"

text \<open>
  \<open>df['company_name'].apply(adjust_company_name)\<close>: row by row, and the first name on
  which the function raises ends the whole \<open>apply\<close>.
\<close>

fun apply_adjust_company_name ::
  "(company_fields, 'c) row list \<Rightarrow> error + (company_fields, 'c) row list" where
  "apply_adjust_company_name [] = Inr []"
| "apply_adjust_company_name (r # rs) =
     (case adjust_company_name (company_name (cols r)) of
        Inl e \<Rightarrow> Inl e
      | Inr n \<Rightarrow>
          (case apply_adjust_company_name rs of
             Inl e \<Rightarrow> Inl e
           | Inr rs' \<Rightarrow> Inr (r\<lparr>cols := (cols r)\<lparr>company_name := n\<rparr>\<rparr> # rs')))"

definition fetch_openings_company ::
  "'c warehouse \<Rightarrow> 'c \<Rightarrow> session \<Rightarrow> (company_fields, 'c) frame \<times> session" where
  "fetch_openings_company w d =
     fetch_frame QCompany (company_answer w d) apply_adjust_company_name
       ''Job vacancy data for the top five companies converted to DataFrame successfully with adjusted company names.''
       ''No job vacancy data found for the specified crawl date.''
       ''Error fetching job vacancy data''"

definition fetch_taiepi_area_openings ::
  "'c warehouse \<Rightarrow> 'c \<Rightarrow> session \<Rightarrow> (area_fields, 'c) frame \<times> session" where
  "fetch_taiepi_area_openings w d =
     fetch_frame QTaipei (taipei_answer w d) Inr
       ''Job vacancy data for specified areas converted to DataFrame successfully.''
       ''No job vacancy data found for the specified crawl date.''
       ''Error fetching job vacancy data''"

definition fetch_tool_by_data_role ::
  "'c warehouse \<Rightarrow> session \<Rightarrow> (role_tool_fields, 'c) frame \<times> session" where
  "fetch_tool_by_data_role w =
     fetch_frame QToolByRole (tool_by_role_answer w) Inr
       ''Tool data by data role converted to DataFrame successfully.''
       ''No tool data found for the specified crawl date.''
       ''Error fetching tool data by data role''"

definition fetch_tool_trends ::
  "'c warehouse \<Rightarrow> session \<Rightarrow> (trend_fields, 'c) frame \<times> session" where
  "fetch_tool_trends w =
     fetch_frame QToolTrends (tool_trends_answer w) Inr
       ''Tool data by data role converted to DataFrame successfully.''
       ''No tool data found for the specified crawl date.''
       ''Error fetching tool trend data''"

section \<open>The two queries on the metrics table\<close>

text \<open>
  The table \<open>rpt_job_openings_metrics\<close>, as far as these two queries read it: rows of
  \<open>total_openings\<close> and a \<open>crawl_date\<close> that is not \<open>NULL\<close>, of a linearly ordered
  column type.

  \<open>SELECT MAX(crawl_date) FROM ...\<close> answers one row; its column is \<open>NULL\<close> on an
  empty table.
\<close>

fun sql_max :: "('c::linorder) list \<Rightarrow> 'c option" where
  "sql_max [] = None"
| "sql_max (x # xs) = Some (fold max xs x)"

definition newest_query :: "(real option, 'c::linorder) row list \<Rightarrow> 'c option list" where
  "newest_query metrics = [sql_max (map crawl_date metrics)]"

text \<open>
  The query of \<open>fetch_openings_history\<close>: \<open>ORDER BY crawl_date DESC LIMIT 12\<close>, then
  \<open>ORDER BY crawl_date ASC\<close>. SQL leaves the order of rows with equal keys open; the
  model sorts stably.
\<close>

definition order_by_asc :: "('a, 'c::linorder) row list \<Rightarrow> ('a, 'c) row list" where
  "order_by_asc rs = sort_key crawl_date rs"

definition order_by_desc :: "('a, 'c::linorder) row list \<Rightarrow> ('a, 'c) row list" where
  "order_by_desc rs = rev (sort_key crawl_date rs)"

definition history_query ::
  "(real option, 'c::linorder) row list \<Rightarrow> (real option, 'c) row list" where
  "history_query metrics = order_by_asc (take 12 (order_by_desc metrics))"

section \<open>Crawl-date cells and their coercion to calendar dates\<close>

text \<open>
  A \<open>crawl_date\<close> value as Python sees it: a \<open>str\<close>, a \<open>datetime.date\<close> (year, month,
  day) or a \<open>datetime.datetime\<close>/\<open>Timestamp\<close> (a date and the second of the day).
\<close>

type_synonym date = "nat \<times> nat \<times> nat"

datatype marker = Str string | Date date | Timestamp date nat

text \<open>
  What pandas reads out of a string is a parameter of the model. \<open>pd.to_datetime\<close>
  converts the strings of a column in the format it infers from the first of them, and
  raises on a string that is not in that format. \<open>parse f s\<close> is the timestamp read
  from \<open>s\<close> in the format inferred from \<open>f\<close>, and \<open>None\<close> where \<open>pd.to_datetime\<close>
  raises; \<open>parse s s\<close> is \<open>s\<close> converted on its own.
\<close>

type_synonym parser = "string \<Rightarrow> string \<Rightarrow> (date \<times> nat) option"

text \<open>
  \<open>pd.to_datetime(v)\<close> on one value. A date becomes the timestamp of its midnight.
\<close>

fun to_datetime :: "parser \<Rightarrow> marker \<Rightarrow> error + date \<times> nat" where
  "to_datetime parse (Str s) =
     (case parse s s of None \<Rightarrow> Inl DateParseError | Some ts \<Rightarrow> Inr ts)"
| "to_datetime parse (Date d) = Inr (d, 0)"
| "to_datetime parse (Timestamp d t) = Inr (d, t)"

text \<open>\<open>pd.to_datetime(v).date()\<close>.\<close>

definition to_date :: "parser \<Rightarrow> marker \<Rightarrow> error + date" where
  "to_date parse v = (case to_datetime parse v of Inl e \<Rightarrow> Inl e | Inr ts \<Rightarrow> Inr (fst ts))"

text \<open>
  \<open>pd.to_datetime(data['crawl_date'])\<close> on a column. When the first cell is a string,
  the format is inferred from it and every string of the column is read in that format;
  otherwise each cell is converted on its own.
\<close>

fun format_source :: "marker list \<Rightarrow> string option" where
  "format_source (Str s # cells) = Some s"
| "format_source cells = None"

fun to_date_in :: "parser \<Rightarrow> string option \<Rightarrow> marker \<Rightarrow> error + date" where
  "to_date_in parse (Some f) (Str s) =
     (case parse f s of None \<Rightarrow> Inl DateParseError | Some ts \<Rightarrow> Inr (fst ts))"
| "to_date_in parse fmt v = to_date parse v"

text \<open>
  \<open>data['crawl_date'] = pd.to_datetime(data['crawl_date']).dt.date\<close>: every cell of the
  column becomes a \<open>datetime.date\<close>, or the conversion raises.
\<close>

fun coerce_cells ::
  "parser \<Rightarrow> string option \<Rightarrow> ('a, marker) frame \<Rightarrow> error + ('a, marker) frame" where
  "coerce_cells parse fmt [] = Inr []"
| "coerce_cells parse fmt (r # rs) =
     (case to_date_in parse fmt (crawl_date r) of
        Inl e \<Rightarrow> Inl e
      | Inr d \<Rightarrow>
          (case coerce_cells parse fmt rs of
             Inl e \<Rightarrow> Inl e
           | Inr rs' \<Rightarrow> Inr (r\<lparr>crawl_date := Date d\<rparr> # rs')))"

definition coerce_crawl_date :: "parser \<Rightarrow> ('a, marker) frame \<Rightarrow> error + ('a, marker) frame" where
  "coerce_crawl_date parse data =
     coerce_cells parse (format_source (map crawl_date data)) data"

text \<open>
  \<open>data['crawl_date'].max()\<close> on a column that is not empty: the largest cell when the
  cells are all strings, all dates or all timestamps; Python does not order values of
  different kinds and raises \<open>TypeError\<close>.
\<close>

fun py_max :: "marker \<Rightarrow> marker \<Rightarrow> error + marker" where
  "py_max (Str a) (Str b) = Inr (Str (max a b))"
| "py_max (Date a) (Date b) = Inr (Date (max a b))"
| "py_max (Timestamp a t) (Timestamp b u) =
     Inr (if (a, t) \<le> (b, u) then Timestamp b u else Timestamp a t)"
| "py_max _ _ = Inl TypeError"

fun column_max :: "marker \<Rightarrow> marker list \<Rightarrow> error + marker" where
  "column_max x [] = Inr x"
| "column_max x (y # ys) =
     (case py_max x y of Inl e \<Rightarrow> Inl e | Inr m \<Rightarrow> column_max m ys)"

text \<open>
  A parser for the instances below. It reads the ten characters \<open>YYYY-MM-DD\<close>, alone
  (midnight) or followed by a space or \<open>T\<close> and \<open>HH:MM:SS\<close>; two strings are in the
  same format when they have the same length and the same separator before the time.
\<close>

definition digit_val :: "char \<Rightarrow> nat option" where
  "digit_val c =
     (let n = (of_char c :: nat) in if 48 \<le> n \<and> n \<le> 57 then Some (n - 48) else None)"

fun digits_val :: "string \<Rightarrow> nat option" where
  "digits_val [] = None"
| "digits_val cs =
     fold (\<lambda>c acc. case acc of None \<Rightarrow> None
                    | Some n \<Rightarrow> map_option (\<lambda>v. 10 * n + v) (digit_val c)) cs (Some 0)"

definition iso_day :: "string \<Rightarrow> date option" where
  "iso_day s =
     (if length s \<noteq> 10 \<or> s ! 4 \<noteq> CHR ''-'' \<or> s ! 7 \<noteq> CHR ''-'' then None
      else
        (case (digits_val (take 4 s), digits_val (take 2 (drop 5 s)),
               digits_val (take 2 (drop 8 s))) of
           (Some y, Some m, Some d) \<Rightarrow>
             if 1 \<le> m \<and> m \<le> 12 \<and> 1 \<le> d \<and> d \<le> 31 then Some (y, m, d) else None
         | _ \<Rightarrow> None))"

definition iso_time :: "string \<Rightarrow> nat option" where
  "iso_time s =
     (if length s \<noteq> 8 \<or> s ! 2 \<noteq> CHR '':'' \<or> s ! 5 \<noteq> CHR '':'' then None
      else
        (case (digits_val (take 2 s), digits_val (take 2 (drop 3 s)),
               digits_val (take 2 (drop 6 s))) of
           (Some h, Some m, Some sec) \<Rightarrow>
             if h < 24 \<and> m < 60 \<and> sec < 60 then Some (3600 * h + 60 * m + sec) else None
         | _ \<Rightarrow> None))"

definition iso_alone :: "string \<Rightarrow> (date \<times> nat) option" where
  "iso_alone s =
     (case iso_day (take 10 s) of
        None \<Rightarrow> None
      | Some d \<Rightarrow>
          if length s = 10 then Some (d, 0)
          else if s ! 10 = CHR '' '' \<or> s ! 10 = CHR ''T'' then
            map_option (Pair d) (iso_time (drop 11 s))
          else None)"

definition same_format :: "string \<Rightarrow> string \<Rightarrow> bool" where
  "same_format f s \<longleftrightarrow> length f = length s \<and> (length f \<le> 10 \<or> f ! 10 = s ! 10)"

definition iso_timestamp :: parser where
  "iso_timestamp f s = (if same_format f s then iso_alone s else None)"

section \<open>The fetch wrappers of the home page\<close>

text \<open>
  \<open>all(data['crawl_date'] == crawl_date)\<close> on the fetched column. A column whose
  cells are all timestamps is a \<open>datetime64\<close> column, which pandas compares with a
  string by parsing the string to a timestamp (no cell equals a string that does not
  parse). Every other comparison is between Python objects, where a string, a date and a
  timestamp are different values.
\<close>

fun is_Timestamp :: "marker \<Rightarrow> bool" where
  "is_Timestamp (Timestamp d t) = True"
| "is_Timestamp _ = False"

fun datetime64_eq :: "parser \<Rightarrow> marker \<Rightarrow> marker \<Rightarrow> bool" where
  "datetime64_eq parse (Timestamp d t) (Str s) = (parse s s = Some (d, t))"
| "datetime64_eq parse a b = (a = b)"

definition all_equal :: "parser \<Rightarrow> marker list \<Rightarrow> marker \<Rightarrow> bool" where
  "all_equal parse column v =
     (if list_all is_Timestamp column then list_all (\<lambda>c. datetime64_eq parse c v) column
      else list_all (\<lambda>c. c = v) column)"

text \<open>
  \<open>fetch_openings_statistics_for_dashboard\<close>: the fetched cells are compared with the
  argument as they are, without a conversion to dates.
\<close>

definition fetch_openings_statistics_for_dashboard ::
  "parser \<Rightarrow> marker warehouse \<Rightarrow> marker \<Rightarrow> session \<Rightarrow>
   (error + (statistics_fields, marker) frame) \<times> session" where
  "fetch_openings_statistics_for_dashboard parse w d s =
     (case fetch_openings_statistics_metrics w d s of (data, s1) \<Rightarrow>
        if data \<noteq> [] then
          if all_equal parse (map crawl_date data) d then (Inr data, s1)
          else (Inr [], log_error
                  ''Data inconsistency detected: 'crawl_date' does not match the provided date.'' s1)
        else (Inr [], log_info
                ''No data available for openings statistics on the provided crawl date.'' s1))"

text \<open>
  \<open>fetch_data_role_for_dashboard\<close>: both sides are coerced to dates first; on a mismatch
  the whole result is dropped.
\<close>

definition fetch_data_role_for_dashboard ::
  "parser \<Rightarrow> marker warehouse \<Rightarrow> marker \<Rightarrow> session \<Rightarrow>
   (error + (role_fields, marker) frame) \<times> session" where
  "fetch_data_role_for_dashboard parse w d s =
     (case fetch_data_role w d s of (data, s1) \<Rightarrow>
        if data \<noteq> [] then
          (case coerce_crawl_date parse data of
             Inl e \<Rightarrow> (Inl e, s1)
           | Inr data' \<Rightarrow>
               (case to_date parse d of
                  Inl e \<Rightarrow> (Inl e, s1)
                | Inr provided_date \<Rightarrow>
                    if list_all (\<lambda>r. crawl_date r = Date provided_date) data'
                    then (Inr data', s1)
                    else (Inr [], log_error
                            ''Data inconsistency detected: 'crawl_date' does not match the provided date.'' s1)))
        else (Inr [], log_info
                ''No data available for data roles on the provided crawl date.'' s1))"

text \<open>
  The wrappers for data tools, top companies and the Taipei area share one body, which
  differs from the data-role wrapper in two places: a success is logged, and on a
  mismatch the rows of the requested date are kept
  (\<open>consistent_data if not consistent_data.empty else pd.DataFrame()\<close>).
\<close>

definition validate_or_filter ::
  "parser \<Rightarrow> string \<Rightarrow> string \<Rightarrow> string \<Rightarrow> marker \<Rightarrow>
   ('a, marker) frame \<times> session \<Rightarrow> (error + ('a, marker) frame) \<times> session" where
  "validate_or_filter parse ok_msg bad_msg none_msg d fetched =
     (case fetched of (data, s1) \<Rightarrow>
        if data \<noteq> [] then
          (case coerce_crawl_date parse data of
             Inl e \<Rightarrow> (Inl e, s1)
           | Inr data' \<Rightarrow>
               (case to_date parse d of
                  Inl e \<Rightarrow> (Inl e, s1)
                | Inr provided_date \<Rightarrow>
                    if list_all (\<lambda>r. crawl_date r = Date provided_date) data'
                    then (Inr data', log_info ok_msg s1)
                    else (Inr (filter (\<lambda>r. crawl_date r = Date provided_date) data'),
                          log_error bad_msg s1)))
        else (Inr [], log_info none_msg s1))"

definition fetch_data_tools_for_dashboard ::
  "parser \<Rightarrow> marker warehouse \<Rightarrow> marker \<Rightarrow> session \<Rightarrow>
   (error + (tool_fields, marker) frame) \<times> session" where
  "fetch_data_tools_for_dashboard parse w d s =
     validate_or_filter parse
       ''Data tools information successfully validated for the provided crawl date.''
       ''Data inconsistency detected: 'crawl_date' does not match the provided date in data tools information.''
       ''No data tools information available for the crawl date''
       d (fetch_data_tool w d s)"

definition fetch_openings_company_for_dashboard ::
  "parser \<Rightarrow> marker warehouse \<Rightarrow> marker \<Rightarrow> session \<Rightarrow>
   (error + (company_fields, marker) frame) \<times> session" where
  "fetch_openings_company_for_dashboard parse w d s =
     validate_or_filter parse
       ''Job vacancy information successfully validated for the provided crawl date.''
       ''Data inconsistency detected: 'crawl_date' does not match the provided date in job vacancy data.''
       ''No job vacancy data available for the crawl date''
       d (fetch_openings_company w d s)"

definition fetch_taiepi_area_openings_for_dashboard ::
  "parser \<Rightarrow> marker warehouse \<Rightarrow> marker \<Rightarrow> session \<Rightarrow>
   (error + (area_fields, marker) frame) \<times> session" where
  "fetch_taiepi_area_openings_for_dashboard parse w d s =
     validate_or_filter parse
       ''Job vacancy information for the Taipei area successfully validated for the provided crawl date.''
       ''Data inconsistency detected: 'crawl_date' does not match the provided date in job vacancy data for the Taipei area.''
       ''No job vacancy data available for the Taipei area on the crawl date''
       d (fetch_taiepi_area_openings w d s)"

text \<open>
  \<open>fetch_historical_total_openings_for_dashboard\<close>: the newest date of the series
  against a second \<open>get_newest_crawl_date\<close>, both as timestamps. \<open>pd.to_datetime(None)\<close>
  is \<open>None\<close>, which no timestamp equals.
\<close>

definition fetch_historical_total_openings_for_dashboard ::
  "parser \<Rightarrow> marker warehouse \<Rightarrow> session \<Rightarrow>
   (error + (real option, marker) frame) \<times> session" where
  "fetch_historical_total_openings_for_dashboard parse w s =
     (case fetch_openings_history w s of
        (r # rs, s1) \<Rightarrow>
          (case get_newest_crawl_date w s1 of (newest_crawl_date, s2) \<Rightarrow>
             (case column_max (crawl_date r) (map crawl_date rs) of
                Inl e \<Rightarrow> (Inl e, s2)
              | Inr max_crawl_date \<Rightarrow>
                  (case to_datetime parse max_crawl_date of
                     Inl e \<Rightarrow> (Inl e, s2)
                   | Inr a \<Rightarrow>
                       (case newest_crawl_date of
                          None \<Rightarrow> (Inr [], log_error
                            ''Data inconsistency detected: The newest data in historical openings does not match the newest crawl date.'' s2)
                        | Some n \<Rightarrow>
                            (case to_datetime parse n of
                               Inl e \<Rightarrow> (Inl e, s2)
                             | Inr b \<Rightarrow>
                                 if a = b then (Inr (r # rs), s2)
                                 else (Inr [], log_error
                                   ''Data inconsistency detected: The newest data in historical openings does not match the newest crawl date.'' s2))))))
      | ([], s1) \<Rightarrow>
          (Inr [], log_info ''No historical data available for total openings.'' s1))"

section \<open>\<open>load_home_page_data\<close>\<close>

text \<open>
  The six local variables of \<open>load_home_page_data\<close>; \<open>None\<close> is a name that has not
  been assigned.
\<close>

record page_locals =
  v_openings_statistics :: "(statistics_fields, marker) frame option"
  v_historical_total_openings :: "(real option, marker) frame option"
  v_data_role :: "(role_fields, marker) frame option"
  v_data_tools :: "(tool_fields, marker) frame option"
  v_openings_company :: "(company_fields, marker) frame option"
  v_taiepi_area_openings :: "(area_fields, marker) frame option"

definition unassigned :: page_locals where
  "unassigned =
     \<lparr> v_openings_statistics = None, v_historical_total_openings = None, v_data_role = None,
       v_data_tools = None, v_openings_company = None, v_taiepi_area_openings = None \<rparr>"

type_synonym home_page_data =
  "(statistics_fields, marker) frame \<times> (real option, marker) frame
   \<times> (role_fields, marker) frame \<times> (tool_fields, marker) frame
   \<times> (company_fields, marker) frame \<times> (area_fields, marker) frame"

text \<open>
  \<open>return openings_statistics, historical_total_openings, data_role, data_tools,
  openings_company, taiepi_area_openings\<close>: reading a name that was never assigned raises
  \<open>UnboundLocalError\<close>.
\<close>

definition return_locals :: "page_locals \<Rightarrow> error + home_page_data" where
  "return_locals l =
     (case v_openings_statistics l of None \<Rightarrow> Inl UnboundLocalError | Some a \<Rightarrow>
      case v_historical_total_openings l of None \<Rightarrow> Inl UnboundLocalError | Some b \<Rightarrow>
      case v_data_role l of None \<Rightarrow> Inl UnboundLocalError | Some c \<Rightarrow>
      case v_data_tools l of None \<Rightarrow> Inl UnboundLocalError | Some d \<Rightarrow>
      case v_openings_company l of None \<Rightarrow> Inl UnboundLocalError | Some e \<Rightarrow>
      case v_taiepi_area_openings l of None \<Rightarrow> Inl UnboundLocalError | Some f \<Rightarrow>
        Inr (a, b, c, d, e, f))"

text \<open>\<open>if newest_crawl_date:\<close> is false for \<open>None\<close> and for the empty string.\<close>

fun truthy :: "marker option \<Rightarrow> bool" where
  "truthy None = False"
| "truthy (Some (Str s)) = (s \<noteq> [])"
| "truthy (Some _) = True"

text \<open>
  The six fetches of the \<open>if\<close> branch, in order. An exception raised by a wrapper leaves
  the function at once: nothing in \<open>load_home_page_data\<close> catches it.
\<close>

definition fetch_all_metrics ::
  "parser \<Rightarrow> marker warehouse \<Rightarrow> marker \<Rightarrow> session \<Rightarrow>
   (error + page_locals) \<times> session" where
  "fetch_all_metrics parse w d s =
     (case fetch_openings_statistics_for_dashboard parse w d s of
        (Inl e, s1) \<Rightarrow> (Inl e, s1)
      | (Inr a, s1) \<Rightarrow>
     (case fetch_historical_total_openings_for_dashboard parse w s1 of
        (Inl e, s2) \<Rightarrow> (Inl e, s2)
      | (Inr b, s2) \<Rightarrow>
     (case fetch_data_role_for_dashboard parse w d s2 of
        (Inl e, s3) \<Rightarrow> (Inl e, s3)
      | (Inr c, s3) \<Rightarrow>
     (case fetch_data_tools_for_dashboard parse w d s3 of
        (Inl e, s4) \<Rightarrow> (Inl e, s4)
      | (Inr t, s4) \<Rightarrow>
     (case fetch_openings_company_for_dashboard parse w d s4 of
        (Inl e, s5) \<Rightarrow> (Inl e, s5)
      | (Inr c5, s5) \<Rightarrow>
     (case fetch_taiepi_area_openings_for_dashboard parse w d s5 of
        (Inl e, s6) \<Rightarrow> (Inl e, s6)
      | (Inr g, s6) \<Rightarrow>
        (Inr \<lparr> v_openings_statistics = Some a, v_historical_total_openings = Some b,
               v_data_role = Some c, v_data_tools = Some t, v_openings_company = Some c5,
               v_taiepi_area_openings = Some g \<rparr>, s6)))))))"

text \<open>
  \<open>if fetcher.connection: fetcher.connection.close()\<close>; the connection object of a
  constructed fetcher is not \<open>None\<close>.
\<close>

definition close_connection :: "session \<Rightarrow> session" where
  "close_connection s = log_info ''Database connection closed.'' (s\<lparr>connection_open := False\<rparr>)"

definition new_session :: session where
  "new_session =
     \<lparr> connection_open = True,
       logs = [(INFO, ''Connected to the database successfully.'')],
       queries = [] \<rparr>"

definition connect_to_database :: "'c warehouse \<Rightarrow> error + session" where
  "connect_to_database w = (if reachable w then Inr new_session else Inl ConnectionError)"

text \<open>
  \<open>load_home_page_data\<close> returns the outcome (the tuple, or the exception that left the
  function) and the final state of the fetcher, when one was constructed.
\<close>

definition load_home_page_data ::
  "parser \<Rightarrow> marker warehouse \<Rightarrow>
   (error + home_page_data) \<times> session option" where
  "load_home_page_data parse w =
     (case connect_to_database w of
        Inl e \<Rightarrow> (Inl e, None)
      | Inr s0 \<Rightarrow>
          (case get_newest_crawl_date w s0 of (newest_crawl_date, s1) \<Rightarrow>
             (case (if truthy newest_crawl_date then newest_crawl_date else None) of
                Some d \<Rightarrow>
                  (case fetch_all_metrics parse w d
                          (log_info ''Fetching data for the date'' s1) of
                     (Inl e, s2) \<Rightarrow> (Inl e, Some s2)
                   | (Inr l, s2) \<Rightarrow> (return_locals l, Some (close_connection s2)))
              | None \<Rightarrow>
                  (return_locals unassigned,
                   Some (close_connection
                           (log_info ''No newest crawl date available.'' s1))))))"

section \<open>The data behind the tool charts\<close>

text \<open>
  \<open>df.groupby(key)['count'].sum()\<close> on rows given as (key, count): one row per key that
  occurs, in ascending key order, with the sum of its counts. The sum of an \<open>int64\<close>
  column is an \<open>int64\<close>: it wraps around modulo \<open>2 ^ 64\<close>, as the sum of words does.
\<close>

definition groupby_sum :: "('k::linorder \<times> 64 word) list \<Rightarrow> ('k \<times> 64 word) list" where
  "groupby_sum kvs =
     map (\<lambda>k. (k, sum_list (map snd (filter (\<lambda>kv. fst kv = k) kvs))))
       (sort (remdups (map fst kvs)))"

text \<open>
  \<open>nlargest(n)\<close> with the default \<open>keep='first'\<close>: the first \<open>n\<close> rows in descending
  order of the count read as a signed number, rows with equal counts in their order of
  appearance.
\<close>

definition nlargest :: "nat \<Rightarrow> ('k \<times> 64 word) list \<Rightarrow> ('k \<times> 64 word) list" where
  "nlargest n kvs = take n (sort_key (\<lambda>kv. - sint (snd kv)) kvs)"

text \<open>The four-way \<open>if\<close>/\<open>elif\<close> chain both chart functions start with.\<close>

definition select_rows ::
  "(role_tool_fields, 'c) frame \<Rightarrow> string \<Rightarrow> string \<Rightarrow> (role_tool_fields, 'c) frame" where
  "select_rows tool_by_data_role selected_datarole selected_category =
     (if selected_datarole = ''All'' \<and> selected_category = ''All'' then tool_by_data_role
      else if selected_datarole = ''All'' then
        filter (\<lambda>r. rt_category (cols r) = selected_category) tool_by_data_role
      else if selected_category = ''All'' then
        filter (\<lambda>r. rt_data_role (cols r) = selected_datarole) tool_by_data_role
      else
        filter (\<lambda>r. rt_data_role (cols r) = selected_datarole
                   \<and> rt_category (cols r) = selected_category) tool_by_data_role)"

text \<open>
  The frame \<open>tool_by_data_role\<close> is the result of \<open>fetch_tool_by_data_role\<close>: rows with
  the five columns of the query, or \<open>pd.DataFrame()\<close>, a frame with no rows and no
  columns. On the latter the first access to a column (\<open>groupby\<close> on \<open>tool_name\<close>,
  or the filter on \<open>category\<close> or \<open>data_role\<close>) raises \<open>KeyError\<close>. A filter that
  keeps no row of a frame with rows leaves the columns in place.
\<close>

text \<open>
  \<open>create_tool_trends_line_chart\<close> up to the frame \<open>filtered_data\<close> the chart is drawn
  from: rows \<open>((tool_name, crawl_date), count)\<close>.
\<close>

definition create_tool_trends_line_chart ::
  "(role_tool_fields, 'c::linorder) frame \<Rightarrow> string \<Rightarrow> string \<Rightarrow>
   error + ((string \<times> 'c) \<times> 64 word) list" where
  "create_tool_trends_line_chart tool_by_data_role selected_datarole selected_category =
     (if tool_by_data_role = [] then Inl KeyError
      else
        (let filtered_data = select_rows tool_by_data_role selected_datarole selected_category;
             grouped_data =
               groupby_sum (map (\<lambda>r. ((rt_tool_name (cols r), crawl_date r), rt_count (cols r)))
                             filtered_data);
             top_tools =
               map fst (nlargest 10
                          (groupby_sum (map (\<lambda>kv. (fst (fst kv), snd kv)) grouped_data)))
         in Inr (filter (\<lambda>kv. fst (fst kv) \<in> set top_tools) grouped_data)))"

text \<open>
  \<open>create_tool_popularity_bar_chart\<close> up to the frame \<open>top_tools\<close> the bars are drawn
  from: rows \<open>(tool_name, count)\<close>.
\<close>

definition create_tool_popularity_bar_chart ::
  "(role_tool_fields, 'c) frame \<Rightarrow> string \<Rightarrow> string \<Rightarrow> error + (string \<times> 64 word) list" where
  "create_tool_popularity_bar_chart tool_by_data_role selected_datarole selected_category =
     (if tool_by_data_role = [] then Inl KeyError
      else
        (let filtered_data = select_rows tool_by_data_role selected_datarole selected_category;
             grouped_data =
               groupby_sum (map (\<lambda>r. (rt_tool_name (cols r), rt_count (cols r))) filtered_data)
         in Inr (nlargest 5 grouped_data)))"

section \<open>Results that are empty and logged; sample warehouses\<close>

text \<open>
  A fetcher's result is the empty DataFrame and the log has grown by at least one entry.
\<close>

definition empty_and_logged :: "session \<Rightarrow> 'f list \<times> session \<Rightarrow> bool" where
  "empty_and_logged s res \<longleftrightarrow>
     fst res = [] \<and> length (logs s) < length (logs (snd res))
     \<and> take (length (logs s)) (logs (snd res)) = logs s"

text \<open>A warehouse whose tables are all empty, and one on which every query fails.\<close>

definition no_rows :: "'c warehouse" where
  "no_rows =
     \<lparr> reachable = True, newest_answer = Inr [None], statistics_answer = (\<lambda>d. Inr []),
       history_answer = Inr [], role_answer = (\<lambda>d. Inr []), tool_answer = (\<lambda>d. Inr []),
       company_answer = (\<lambda>d. Inr []), taipei_answer = (\<lambda>d. Inr []),
       tool_by_role_answer = Inr [], tool_trends_answer = Inr [] \<rparr>"

definition failing :: "'c warehouse" where
  "failing =
     \<lparr> reachable = True, newest_answer = Inl DatabaseError,
       statistics_answer = (\<lambda>d. Inl DatabaseError),
       history_answer = Inl DatabaseError, role_answer = (\<lambda>d. Inl DatabaseError),
       tool_answer = (\<lambda>d. Inl DatabaseError), company_answer = (\<lambda>d. Inl DatabaseError),
       taipei_answer = (\<lambda>d. Inl DatabaseError),
       tool_by_role_answer = Inl DatabaseError, tool_trends_answer = Inl DatabaseError \<rparr>"

text \<open>Fifteen weekly rows of the metrics table, the newest first.\<close>

definition weekly_metrics :: "(real option, date) row list" where
  "weekly_metrics =
     [\<lparr>cols = Some 120, crawl_date = (2024, 4, 8)\<rparr>,
      \<lparr>cols = Some 100, crawl_date = (2024, 1, 1)\<rparr>,
      \<lparr>cols = Some 101, crawl_date = (2024, 1, 8)\<rparr>,
      \<lparr>cols = Some 102, crawl_date = (2024, 1, 15)\<rparr>,
      \<lparr>cols = Some 103, crawl_date = (2024, 1, 22)\<rparr>,
      \<lparr>cols = Some 104, crawl_date = (2024, 1, 29)\<rparr>,
      \<lparr>cols = Some 105, crawl_date = (2024, 2, 5)\<rparr>,
      \<lparr>cols = Some 106, crawl_date = (2024, 2, 12)\<rparr>,
      \<lparr>cols = Some 107, crawl_date = (2024, 2, 19)\<rparr>,
      \<lparr>cols = Some 108, crawl_date = (2024, 2, 26)\<rparr>,
      \<lparr>cols = Some 109, crawl_date = (2024, 3, 4)\<rparr>,
      \<lparr>cols = Some 110, crawl_date = (2024, 3, 11)\<rparr>,
      \<lparr>cols = Some 111, crawl_date = (2024, 3, 18)\<rparr>,
      \<lparr>cols = Some 112, crawl_date = (2024, 3, 25)\<rparr>,
      \<lparr>cols = Some 113, crawl_date = (2024, 4, 1)\<rparr>]"

section \<open>Sample rows and warehouses for the wrappers\<close>

text \<open>
  Sample rows for the instances: one data-role row whose \<open>crawl_date\<close> is not a date, and
  one statistics row of 8 April 2024.
\<close>

definition unknown_role_row :: "(role_fields, marker) row" where
  "unknown_role_row =
     \<lparr>cols = \<lparr>data_role = ''Data Analyst'', role_count = 5, percentage_of_total = 100\<rparr>,
      crawl_date = Str ''unknown''\<rparr>"

definition april_statistics_row :: "marker \<Rightarrow> (statistics_fields, marker) row" where
  "april_statistics_row d =
     \<lparr>cols = \<lparr>st_total_openings = Some 120, total_openings_change_pct = 20,
              st_closed_openings_count = Some 10, closed_openings_change_pct = 0,
              st_new_openings_count = Some 30, new_openings_change_pct = 50,
              st_fill_rate = Some 8, fill_rate_change_pct = 0,
              st_average_weeks_to_fill = None, average_weeks_to_fill_change_pct = 0\<rparr>,
      crawl_date = d\<rparr>"

text \<open>
  A warehouse whose newest crawl date is the string \<open>2024-04-08\<close> and whose data-role
  table answers with \<open>unknown_role_row\<close>; its other tables are empty.
\<close>

definition dirty_roles :: "marker warehouse" where
  "dirty_roles =
     no_rows\<lparr>newest_answer := Inr [Some (Str ''2024-04-08'')],
             role_answer := \<lambda>d. Inr [unknown_role_row]\<rparr>"

text \<open>A warehouse whose statistics query answers with one row dated by \<open>datetime.date\<close>.\<close>

definition dated_statistics :: "marker warehouse" where
  "dated_statistics =
     no_rows\<lparr>statistics_answer := \<lambda>d. Inr [april_statistics_row (Date (2024, 4, 8))],
             role_answer := \<lambda>d. Inr [unknown_role_row\<lparr>crawl_date := Date (2024, 4, 8)\<rparr>]\<rparr>"

text \<open>
  A warehouse with a newest crawl date and no rows for it, and the warehouse whose five
  dated tables each answer one row per given \<open>crawl_date\<close> cell.
\<close>

definition fresh :: "marker warehouse" where
  "fresh = no_rows\<lparr>newest_answer := Inr [Some (Str ''2024-04-08'')]\<rparr>"

definition dated :: "'a \<Rightarrow> marker list \<Rightarrow> ('a, marker) row list" where
  "dated c cells = map (\<lambda>v. \<lparr>cols = c, crawl_date = v\<rparr>) cells"

definition python_tool :: tool_fields where
  "python_tool =
     \<lparr>tool_rank = 1, tool_category = ''Language'', tool_name = ''Python'',
      tool_percentage = 40\<rparr>"

definition acme :: company_fields where
  "acme = \<lparr>company_rank = 1, company_name = ''Acme_Corp'', opening_count = 12\<rparr>"

definition xinyi :: area_fields where
  "xinyi =
     \<lparr>county_name_eng = ''Taipei City'', district_name_eng = ''Xinyi'', openings_count = 7\<rparr>"

definition sample_warehouse :: "marker list \<Rightarrow> marker warehouse" where
  "sample_warehouse cells =
     fresh\<lparr>statistics_answer := \<lambda>d. Inr (dated (cols (april_statistics_row d)) cells),
           role_answer := \<lambda>d. Inr (dated (cols unknown_role_row) cells),
           tool_answer := \<lambda>d. Inr (dated python_tool cells),
           company_answer := \<lambda>d. Inr (dated acme cells),
           taipei_answer := \<lambda>d. Inr (dated xinyi cells)\<rparr>"

text \<open>
  Thirteen rows of the metrics table on twelve crawl dates: the newest date occurs
  twice.
\<close>

definition repeated_metrics :: "(real option, date) row list" where
  "repeated_metrics =
     [\<lparr>cols = Some 120, crawl_date = (2024, 4, 8)\<rparr>,
      \<lparr>cols = Some 121, crawl_date = (2024, 4, 8)\<rparr>,
      \<lparr>cols = Some 103, crawl_date = (2024, 1, 22)\<rparr>,
      \<lparr>cols = Some 104, crawl_date = (2024, 1, 29)\<rparr>,
      \<lparr>cols = Some 105, crawl_date = (2024, 2, 5)\<rparr>,
      \<lparr>cols = Some 106, crawl_date = (2024, 2, 12)\<rparr>,
      \<lparr>cols = Some 107, crawl_date = (2024, 2, 19)\<rparr>,
      \<lparr>cols = Some 108, crawl_date = (2024, 2, 26)\<rparr>,
      \<lparr>cols = Some 109, crawl_date = (2024, 3, 4)\<rparr>,
      \<lparr>cols = Some 110, crawl_date = (2024, 3, 11)\<rparr>,
      \<lparr>cols = Some 111, crawl_date = (2024, 3, 18)\<rparr>,
      \<lparr>cols = Some 112, crawl_date = (2024, 3, 25)\<rparr>,
      \<lparr>cols = Some 113, crawl_date = (2024, 4, 1)\<rparr>]"

section \<open>Totals the chart reductions are measured against\<close>

text \<open>
  The \<open>int64\<close> sum of the counts of the rows with a given key; the tools that occur in a
  frame; the \<open>int64\<close> sum of the counts of a tool over all its rows, and over its rows
  of one crawl date; and the sum of the counts of a tool as a number, without wrap-around.
\<close>

definition key_total :: "('k \<times> 64 word) list \<Rightarrow> 'k \<Rightarrow> 64 word" where
  "key_total kvs k = sum_list (map snd (filter (\<lambda>kv. fst kv = k) kvs))"

definition tools_in :: "(role_tool_fields, 'c) frame \<Rightarrow> string set" where
  "tools_in rows = (\<lambda>r. rt_tool_name (cols r)) ` set rows"

definition tool_total :: "(role_tool_fields, 'c) frame \<Rightarrow> string \<Rightarrow> 64 word" where
  "tool_total rows t =
     sum_list (map (\<lambda>r. rt_count (cols r)) (filter (\<lambda>r. rt_tool_name (cols r) = t) rows))"

definition tool_date_total ::
  "(role_tool_fields, 'c) frame \<Rightarrow> string \<Rightarrow> 'c \<Rightarrow> 64 word" where
  "tool_date_total rows t d =
     sum_list (map (\<lambda>r. rt_count (cols r))
       (filter (\<lambda>r. rt_tool_name (cols r) = t \<and> crawl_date r = d) rows))"

definition exact_total :: "(role_tool_fields, 'c) frame \<Rightarrow> string \<Rightarrow> int" where
  "exact_total rows t =
     sum_list (map (\<lambda>r. sint (rt_count (cols r)))
       (filter (\<lambda>r. rt_tool_name (cols r) = t) rows))"

text \<open>No total of a frame leaves the range of \<open>int64\<close>.\<close>

definition no_overflow :: "(role_tool_fields, 'c) frame \<Rightarrow> bool" where
  "no_overflow rows \<longleftrightarrow>
     list_all (\<lambda>r. - (2 ^ 63) \<le> exact_total rows (rt_tool_name (cols r))
                   \<and> exact_total rows (rt_tool_name (cols r)) < 2 ^ 63) rows"
text \<open>
  A tool table with twelve tools of distinct total counts; Python and SQL occur on two
  crawl dates and under two roles.
\<close>

definition tool_row ::
  "string \<Rightarrow> string \<Rightarrow> string \<Rightarrow> 64 word \<Rightarrow> date \<Rightarrow> (role_tool_fields, date) row" where
  "tool_row role cat tool n d =
     \<lparr>cols = \<lparr>rt_data_role = role, rt_category = cat, rt_tool_name = tool, rt_count = n\<rparr>,
      crawl_date = d\<rparr>"

definition twelve_tools :: "(role_tool_fields, date) frame" where
  "twelve_tools =
     [tool_row ''Data Analyst'' ''Language'' ''Python'' 60 (2024, 4, 1),
      tool_row ''Data Engineer'' ''Language'' ''Python'' 50 (2024, 4, 1),
      tool_row ''Data Analyst'' ''Language'' ''Python'' 70 (2024, 4, 8),
      tool_row ''Data Analyst'' ''Database'' ''SQL'' 90 (2024, 4, 1),
      tool_row ''Data Engineer'' ''Database'' ''SQL'' 80 (2024, 4, 8),
      tool_row ''Data Analyst'' ''BI'' ''Excel'' 140 (2024, 4, 8),
      tool_row ''Data Analyst'' ''BI'' ''Tableau'' 130 (2024, 4, 8),
      tool_row ''Data Engineer'' ''Big Data'' ''Spark'' 120 (2024, 4, 8),
      tool_row ''Data Engineer'' ''Cloud'' ''AWS'' 110 (2024, 4, 8),
      tool_row ''Data Scientist'' ''Language'' ''R'' 100 (2024, 4, 8),
      tool_row ''Data Engineer'' ''Language'' ''Java'' 95 (2024, 4, 8),
      tool_row ''Data Engineer'' ''Workflow'' ''Airflow'' 85 (2024, 4, 8),
      tool_row ''Data Engineer'' ''DevOps'' ''Docker'' 75 (2024, 4, 8),
      tool_row ''Data Engineer'' ''Language'' ''Scala'' 20 (2024, 4, 8),
      tool_row ''Data Analyst'' ''Statistics'' ''SAS'' 10 (2024, 4, 8)]"

text \<open>
  A tool table with eleven tools. The two counts of Python are \<open>2 ^ 62\<close> each: their sum
  \<open>2 ^ 63\<close> is the largest total of the table and one more than the largest \<open>int64\<close>.
\<close>

definition wrapping_tools :: "(role_tool_fields, date) frame" where
  "wrapping_tools =
     [tool_row ''Data Analyst'' ''Language'' ''Python'' (2 ^ 62) (2024, 4, 1),
      tool_row ''Data Analyst'' ''Language'' ''Python'' (2 ^ 62) (2024, 4, 8),
      tool_row ''Data Analyst'' ''Database'' ''SQL'' 90 (2024, 4, 8),
      tool_row ''Data Analyst'' ''BI'' ''Excel'' 140 (2024, 4, 8),
      tool_row ''Data Analyst'' ''BI'' ''Tableau'' 130 (2024, 4, 8),
      tool_row ''Data Engineer'' ''Big Data'' ''Spark'' 120 (2024, 4, 8),
      tool_row ''Data Engineer'' ''Cloud'' ''AWS'' 110 (2024, 4, 8),
      tool_row ''Data Scientist'' ''Language'' ''R'' 100 (2024, 4, 8),
      tool_row ''Data Engineer'' ''Language'' ''Java'' 95 (2024, 4, 8),
      tool_row ''Data Engineer'' ''Workflow'' ''Airflow'' 85 (2024, 4, 8),
      tool_row ''Data Engineer'' ''DevOps'' ''Docker'' 75 (2024, 4, 8),
      tool_row ''Data Engineer'' ''Language'' ''Scala'' 20 (2024, 4, 8)]"

section \<open>Properties of the company-name normalisation\<close>

lemma lazy_group_Some_iff:
  "lazy_group cs = Some g \<longleftrightarrow>
     (\<exists>rest. cs = g @ CHR '')'' # rest \<and> CHR '')'' \<notin> set g \<and> CHR 0x0A \<notin> set g)"
proof (induction cs arbitrary: g)
  case Nil
  then show ?case by simp
next
  case (Cons c cs)
  show ?case
  proof (cases "c = CHR '')''")
    case True
    then show ?thesis by (auto simp: Cons_eq_append_conv)
  next
    case False
    note nclose = this
    show ?thesis
    proof (cases "c = CHR 0x0A")
      case True
      then show ?thesis using nclose by (auto simp: Cons_eq_append_conv)
    next
      case False
      then show ?thesis using nclose Cons.IH
        by (auto simp: Cons_eq_append_conv)
    qed
  qed
qed

lemma adjust_company_name_underscore:
  "CHR ''_'' \<in> set name \<Longrightarrow>
   adjust_company_name name = Inr (takeWhile (\<lambda>c. c \<noteq> CHR ''_'') name)"
  by (simp add: adjust_company_name_def split_underscore_first_def)

lemma adjust_company_name_plain:
  "CHR ''_'' \<notin> set name \<Longrightarrow> CHR ''('' \<notin> set name \<or> CHR '')'' \<notin> set name \<Longrightarrow>
   adjust_company_name name = Inr name"
  by (auto simp: adjust_company_name_def)

lemma adjust_company_name_examples:
  "adjust_company_name ''Acme_Corp'' = Inr ''Acme''"
  "adjust_company_name ''Foo (Bar Inc)'' = Inr ''Bar Inc''"
  "adjust_company_name ''PlainName'' = Inr ''PlainName''"
  by (simp_all add: adjust_company_name_def split_underscore_first_def)

section \<open>Properties of the percentage expressions\<close>

lemma change_pct_nonzero:
  "p \<noteq> 0 \<Longrightarrow> change_pct (Some c) (Some p) = Inr ((c - p) / p * 100)"
  by (simp add: change_pct_def sql_divide_def sql_minus_def sql_times_def NULLIF_def
      COALESCE_def)

lemma change_pct_zero: "change_pct cur (Some 0) = Inr 0"
  by (simp add: change_pct_def sql_divide_def sql_minus_def sql_times_def NULLIF_def
      COALESCE_def split: option.splits)

lemma change_pct_absent: "change_pct cur None = Inr 0"
  by (simp add: change_pct_def sql_divide_def sql_minus_def sql_times_def NULLIF_def
      COALESCE_def split: option.splits)

lemma change_pct_total: "\<exists>v. change_pct cur prev = Inr v"
  by (cases prev; cases cur)
     (simp_all add: change_pct_def sql_divide_def sql_minus_def sql_times_def NULLIF_def
      COALESCE_def)

lemma percentage_of_tool_nonzero:
  "t \<noteq> 0 \<Longrightarrow> percentage_of_tool (Some n) (Some t) = Inr (n / t * 100)"
  by (simp add: percentage_of_tool_def sql_divide_def sql_times_def NULLIF_def COALESCE_def)

lemma percentage_of_tool_zero: "percentage_of_tool n (Some 0) = Inr 0"
  by (simp add: percentage_of_tool_def sql_divide_def sql_times_def NULLIF_def COALESCE_def
      split: option.splits)

lemma percentage_of_tool_absent: "percentage_of_tool n None = Inr 0"
  by (simp add: percentage_of_tool_def sql_divide_def sql_times_def NULLIF_def COALESCE_def
      split: option.splits)

lemma statistics_select_columns:
  "\<exists>s. statistics_select r = Inr s
     \<and> change_pct (total_openings r) (prev_total_openings r)
         = Inr (total_openings_change_pct (cols s))
     \<and> change_pct (closed_openings_count r) (prev_closed_openings_count r)
         = Inr (closed_openings_change_pct (cols s))
     \<and> change_pct (new_openings_count r) (prev_new_openings_count r)
         = Inr (new_openings_change_pct (cols s))
     \<and> change_pct (fill_rate r) (prev_fill_rate r)
         = Inr (fill_rate_change_pct (cols s))
     \<and> change_pct (average_weeks_to_fill r) (prev_average_weeks_to_fill r)
         = Inr (average_weeks_to_fill_change_pct (cols s))"
proof -
  obtain p1 where p1: "change_pct (total_openings r) (prev_total_openings r) = Inr p1"
    using change_pct_total by blast
  obtain p2 where p2:
    "change_pct (closed_openings_count r) (prev_closed_openings_count r) = Inr p2"
    using change_pct_total by blast
  obtain p3 where p3: "change_pct (new_openings_count r) (prev_new_openings_count r) = Inr p3"
    using change_pct_total by blast
  obtain p4 where p4: "change_pct (fill_rate r) (prev_fill_rate r) = Inr p4"
    using change_pct_total by blast
  obtain p5 where p5:
    "change_pct (average_weeks_to_fill r) (prev_average_weeks_to_fill r) = Inr p5"
    using change_pct_total by blast
  show ?thesis
    by (simp add: statistics_select_def p1 p2 p3 p4 p5)
qed

text \<open>
  Claim C3 (change percentages). Each of the five change-percentage columns of the
  openings-statistics query is \<open>change_pct\<close> of the current and the previous value; it is
  \<open>(current - previous) / previous * 100\<close> when the previous value is present and not
  zero, and \<open>0\<close> (a value, not an error) when the previous value is zero or absent;
  previous 50 and current 75 give 50. The tool-ranking percentage has the same guard on
  its divisor: \<open>tool_count / total_openings * 100\<close> when the total is present and not
  zero, \<open>0\<close> otherwise.
\<close>

theorem change_pct_convention:
  "(p \<noteq> 0 \<longrightarrow> change_pct (Some c) (Some p) = Inr ((c - p) / p * 100))
   \<and> change_pct cur (Some 0) = Inr 0
   \<and> change_pct cur None = Inr 0
   \<and> change_pct (Some 75) (Some 50) = Inr 50
   \<and> (\<exists>s. statistics_select r = Inr s
        \<and> change_pct (total_openings r) (prev_total_openings r)
            = Inr (total_openings_change_pct (cols s))
        \<and> change_pct (closed_openings_count r) (prev_closed_openings_count r)
            = Inr (closed_openings_change_pct (cols s))
        \<and> change_pct (new_openings_count r) (prev_new_openings_count r)
            = Inr (new_openings_change_pct (cols s))
        \<and> change_pct (fill_rate r) (prev_fill_rate r)
            = Inr (fill_rate_change_pct (cols s))
        \<and> change_pct (average_weeks_to_fill r) (prev_average_weeks_to_fill r)
            = Inr (average_weeks_to_fill_change_pct (cols s)))
   \<and> (t \<noteq> 0 \<longrightarrow> percentage_of_tool (Some n) (Some t) = Inr (n / t * 100))
   \<and> percentage_of_tool cnt (Some 0) = Inr 0
   \<and> percentage_of_tool cnt None = Inr 0"
proof -
  have "change_pct (Some 75) (Some 50) = Inr 50"
    using change_pct_nonzero [of 50 75] by simp
  then show ?thesis
    using change_pct_nonzero [of p c] change_pct_zero [of cur] change_pct_absent [of cur]
      statistics_select_columns [of r] percentage_of_tool_nonzero [of t n]
      percentage_of_tool_zero [of cnt] percentage_of_tool_absent [of cnt]
    by blast
qed

theorem change_pct_convention_witness:
  "(40::real) \<noteq> 0 \<and> change_pct (Some 50) (Some 40) = Inr 25
   \<and> (200::real) \<noteq> 0 \<and> percentage_of_tool (Some 30) (Some 200) = Inr 15
   \<and> change_pct (Some 50) (Some 0) = Inr 0"
  using change_pct_convention [of 40 50 "Some 50" "\<lparr> total_openings = Some 50,
      prev_total_openings = Some 40, closed_openings_count = None,
      prev_closed_openings_count = None, new_openings_count = None,
      prev_new_openings_count = None, fill_rate = None, prev_fill_rate = None,
      average_weeks_to_fill = None, prev_average_weeks_to_fill = None,
      lead_crawl_date = () \<rparr>" 200 30 "Some 30"]
  by simp

text \<open>
  Claim C5 (company-name normalisation). The claim reads: for every company name, the
  normalisation returns the text before the first underscore if there is one, otherwise
  the parenthesised text if the name contains parentheses, otherwise the name unchanged.
  On the name \<open>)(\<close>, which contains both parentheses and no underscore, the function
  returns nothing: \<open>re.search\<close> finds no match and \<open>.group(1)\<close> raises.
\<close>

theorem adjust_company_name_raises:
  "adjust_company_name '')('' = Inl AttributeError"
  by (simp add: adjust_company_name_def)

section \<open>Properties of the fetchers\<close>

lemma fetch_frame_no_rows:
  "fetch_frame q (Inr []) build a b c s =
     ([], s\<lparr>queries := queries s @ [q], logs := logs s @ [(INFO, b)]\<rparr>)"
  by (simp add: fetch_frame_def execute_query_def log_info_def)

lemma fetch_frame_failure:
  "fetch_frame q (Inl e) build a b c s =
     ([], s\<lparr>queries := queries s @ [q],
            logs := logs s @ [(ERROR, ''Failed to execute query''), (INFO, b)]\<rparr>)"
  by (simp add: fetch_frame_def execute_query_def log_info_def log_error_def)

lemma fetch_frame_build_raises:
  "rows \<noteq> [] \<Longrightarrow> build rows = Inl e \<Longrightarrow>
   fetch_frame q (Inr rows) build a b c s =
     ([], s\<lparr>queries := queries s @ [q], logs := logs s @ [(ERROR, c)]\<rparr>)"
  by (cases rows) (simp_all add: fetch_frame_def execute_query_def log_error_def)

lemma fetch_frame_rows:
  "rows \<noteq> [] \<Longrightarrow> build rows = Inr df \<Longrightarrow>
   fetch_frame q (Inr rows) build a b c s =
     (df, s\<lparr>queries := queries s @ [q], logs := logs s @ [(INFO, a)]\<rparr>)"
  by (cases rows) (simp_all add: fetch_frame_def execute_query_def log_info_def)

lemma fetch_frame_empty_and_logged:
  "answer = Inr [] \<or> (\<exists>e. answer = Inl e) \<Longrightarrow>
   empty_and_logged s (fetch_frame q answer build a b c s)"
  by (auto simp: empty_and_logged_def fetch_frame_no_rows fetch_frame_failure)

lemma fetch_frame_raise_empty_and_logged:
  "answer = Inr rows \<Longrightarrow> build rows = Inl e \<Longrightarrow>
   empty_and_logged s (fetch_frame q answer build a b c s)"
  by (cases rows)
     (auto simp: empty_and_logged_def fetch_frame_no_rows fetch_frame_build_raises)

text \<open>
  Claim C6 (empty result on no rows and on failure). For each of the eight metric
  fetchers of \<open>FetchReportData\<close>: when its query yields no row, and when its query
  raises inside \<open>execute_query\<close>, the fetcher returns the empty DataFrame and writes
  at least one log entry. The same holds when the company fetcher's name normalisation
  raises. A fetcher's result is a DataFrame in every case: its model has no branch that
  raises or returns \<open>None\<close>, as every path of the source ends in \<open>return df\<close> or
  \<open>return pd.DataFrame()\<close>.
\<close>

theorem metric_fetchers_empty_result:
  "(statistics_answer w d = Inr [] \<or> (\<exists>e. statistics_answer w d = Inl e)
      \<longrightarrow> empty_and_logged s (fetch_openings_statistics_metrics w d s))
   \<and> (history_answer w = Inr [] \<or> (\<exists>e. history_answer w = Inl e)
      \<longrightarrow> empty_and_logged s (fetch_openings_history w s))
   \<and> (role_answer w d = Inr [] \<or> (\<exists>e. role_answer w d = Inl e)
      \<longrightarrow> empty_and_logged s (fetch_data_role w d s))
   \<and> (tool_answer w d = Inr [] \<or> (\<exists>e. tool_answer w d = Inl e)
      \<longrightarrow> empty_and_logged s (fetch_data_tool w d s))
   \<and> (company_answer w d = Inr [] \<or> (\<exists>e. company_answer w d = Inl e)
      \<longrightarrow> empty_and_logged s (fetch_openings_company w d s))
   \<and> (\<forall>rows e. company_answer w d = Inr rows \<and> apply_adjust_company_name rows = Inl e
      \<longrightarrow> empty_and_logged s (fetch_openings_company w d s))
   \<and> (taipei_answer w d = Inr [] \<or> (\<exists>e. taipei_answer w d = Inl e)
      \<longrightarrow> empty_and_logged s (fetch_taiepi_area_openings w d s))
   \<and> (tool_by_role_answer w = Inr [] \<or> (\<exists>e. tool_by_role_answer w = Inl e)
      \<longrightarrow> empty_and_logged s (fetch_tool_by_data_role w s))
   \<and> (tool_trends_answer w = Inr [] \<or> (\<exists>e. tool_trends_answer w = Inl e)
      \<longrightarrow> empty_and_logged s (fetch_tool_trends w s))"
proof (intro conjI impI allI)
  assume "statistics_answer w d = Inr [] \<or> (\<exists>e. statistics_answer w d = Inl e)"
  then show "empty_and_logged s (fetch_openings_statistics_metrics w d s)"
    unfolding fetch_openings_statistics_metrics_def by (rule fetch_frame_empty_and_logged)
next
  assume "history_answer w = Inr [] \<or> (\<exists>e. history_answer w = Inl e)"
  then show "empty_and_logged s (fetch_openings_history w s)"
    unfolding fetch_openings_history_def by (rule fetch_frame_empty_and_logged)
next
  assume "role_answer w d = Inr [] \<or> (\<exists>e. role_answer w d = Inl e)"
  then show "empty_and_logged s (fetch_data_role w d s)"
    unfolding fetch_data_role_def by (rule fetch_frame_empty_and_logged)
next
  assume "tool_answer w d = Inr [] \<or> (\<exists>e. tool_answer w d = Inl e)"
  then show "empty_and_logged s (fetch_data_tool w d s)"
    unfolding fetch_data_tool_def by (rule fetch_frame_empty_and_logged)
next
  assume "company_answer w d = Inr [] \<or> (\<exists>e. company_answer w d = Inl e)"
  then show "empty_and_logged s (fetch_openings_company w d s)"
    unfolding fetch_openings_company_def by (rule fetch_frame_empty_and_logged)
next
  fix rows e
  assume "company_answer w d = Inr rows \<and> apply_adjust_company_name rows = Inl e"
  then show "empty_and_logged s (fetch_openings_company w d s)"
    unfolding fetch_openings_company_def
    using fetch_frame_raise_empty_and_logged [of "company_answer w d" rows
        apply_adjust_company_name e s QCompany]
    by simp
next
  assume "taipei_answer w d = Inr [] \<or> (\<exists>e. taipei_answer w d = Inl e)"
  then show "empty_and_logged s (fetch_taiepi_area_openings w d s)"
    unfolding fetch_taiepi_area_openings_def by (rule fetch_frame_empty_and_logged)
next
  assume "tool_by_role_answer w = Inr [] \<or> (\<exists>e. tool_by_role_answer w = Inl e)"
  then show "empty_and_logged s (fetch_tool_by_data_role w s)"
    unfolding fetch_tool_by_data_role_def by (rule fetch_frame_empty_and_logged)
next
  assume "tool_trends_answer w = Inr [] \<or> (\<exists>e. tool_trends_answer w = Inl e)"
  then show "empty_and_logged s (fetch_tool_trends w s)"
    unfolding fetch_tool_trends_def by (rule fetch_frame_empty_and_logged)
qed

section \<open>Properties of the marker resolution and of the page load without a marker\<close>

lemma sql_max_eq: "sql_max xs = (if xs = [] then None else Some (Max (set xs)))"
proof (cases xs)
  case Nil
  then show ?thesis by simp
next
  case (Cons a list)
  then show ?thesis using Max.set_eq_fold [of a list] by simp
qed

lemma get_newest_crawl_date_queries:
  "queries (snd (get_newest_crawl_date w s)) = queries s @ [QNewest]"
  by (auto simp: get_newest_crawl_date_def execute_query_def log_info_def log_error_def Let_def
      split: sum.splits list.splits option.splits)

lemma get_newest_crawl_date_open:
  "connection_open (snd (get_newest_crawl_date w s)) = connection_open s"
  by (auto simp: get_newest_crawl_date_def execute_query_def log_info_def log_error_def Let_def
      split: sum.splits list.splits option.splits)

lemma get_newest_crawl_date_max:
  "newest_answer w = Inr (newest_query metrics) \<Longrightarrow>
   fst (get_newest_crawl_date w s) =
     (if metrics = [] then None else Some (Max (crawl_date ` set metrics)))"
  by (simp add: get_newest_crawl_date_def execute_query_def newest_query_def sql_max_eq Let_def)

lemma get_newest_crawl_date_failure:
  "newest_answer w = Inl e \<Longrightarrow> fst (get_newest_crawl_date w s) = None"
  by (simp add: get_newest_crawl_date_def execute_query_def Let_def)

lemma load_home_page_data_no_marker:
  assumes "connect_to_database hw = Inr s0" and "fst (get_newest_crawl_date hw s0) = None"
  shows "load_home_page_data parse hw =
           (Inl UnboundLocalError,
            Some (close_connection (log_info ''No newest crawl date available.''
                    (snd (get_newest_crawl_date hw s0)))))"
proof -
  obtain n s1 where g: "get_newest_crawl_date hw s0 = (n, s1)"
    by (cases "get_newest_crawl_date hw s0")
  with assms(2) have n: "n = None" by simp
  show ?thesis
    by (simp add: load_home_page_data_def assms(1) g n return_locals_def unassigned_def)
qed

lemma connect_to_database_queries:
  "connect_to_database hw = Inr s0 \<Longrightarrow> queries s0 = [] \<and> connection_open s0"
  by (auto simp: connect_to_database_def new_session_def split: if_splits)

text \<open>
  Claim C7 (resolution of the newest crawl date). When the cursor answers the
  \<open>MAX(crawl_date)\<close> query on the metrics table, \<open>get_newest_crawl_date\<close> returns the
  largest crawl date of the table, and \<open>None\<close> when the table is empty; when the query
  raises it returns \<open>None\<close> as well; it has no raising path. When it returns \<open>None\<close>
  to \<open>load_home_page_data\<close>, the only query of that render is the newest-date query:
  no metric fetch is performed.
\<close>

theorem newest_crawl_date_resolution:
  fixes w :: "'c::linorder warehouse" and hw :: "marker warehouse"
  shows
  "(newest_answer w = Inr (newest_query metrics) \<longrightarrow>
      fst (get_newest_crawl_date w s) =
        (if metrics = [] then None else Some (Max (crawl_date ` set metrics))))
   \<and> (newest_answer w = Inl e \<longrightarrow> fst (get_newest_crawl_date w s) = None)
   \<and> (connect_to_database hw = Inr s0 \<and> fst (get_newest_crawl_date hw s0) = None \<longrightarrow>
        (\<exists>res s'. load_home_page_data parse hw = (res, Some s') \<and> queries s' = [QNewest]))"
proof (intro conjI impI)
  assume "newest_answer w = Inr (newest_query metrics)"
  then show "fst (get_newest_crawl_date w s) =
        (if metrics = [] then None else Some (Max (crawl_date ` set metrics)))"
    by (rule get_newest_crawl_date_max)
next
  assume "newest_answer w = Inl e"
  then show "fst (get_newest_crawl_date w s) = None"
    by (rule get_newest_crawl_date_failure)
next
  assume a: "connect_to_database hw = Inr s0 \<and> fst (get_newest_crawl_date hw s0) = None"
  then have "queries s0 = []"
    using connect_to_database_queries by blast
  then have "queries (close_connection (log_info ''No newest crawl date available.''
                    (snd (get_newest_crawl_date hw s0)))) = [QNewest]"
    by (simp add: close_connection_def log_info_def get_newest_crawl_date_queries)
  moreover have "load_home_page_data parse hw =
           (Inl UnboundLocalError,
            Some (close_connection (log_info ''No newest crawl date available.''
                    (snd (get_newest_crawl_date hw s0)))))"
    using a by (simp add: load_home_page_data_no_marker)
  ultimately show
    "\<exists>res s'. load_home_page_data parse hw = (res, Some s') \<and> queries s' = [QNewest]"
    by simp
qed

text \<open>
  Claim C10 (no marker: the return statement raises). When \<open>get_newest_crawl_date\<close>
  returns \<open>None\<close>, \<open>load_home_page_data\<close> performs no metric fetch, closes the
  connection, and then raises \<open>UnboundLocalError\<close> at its \<open>return\<close>, whose names
  were never assigned; the caller gets the exception, not a tuple of empty results.
\<close>

theorem load_home_page_data_unbound_local:
  assumes "connect_to_database hw = Inr s0" and "fst (get_newest_crawl_date hw s0) = None"
  shows "\<exists>s'. load_home_page_data parse hw = (Inl UnboundLocalError, Some s')
           \<and> \<not> connection_open s' \<and> queries s' = [QNewest]"
proof -
  let ?s' = "close_connection (log_info ''No newest crawl date available.''
                    (snd (get_newest_crawl_date hw s0)))"
  have "queries s0 = []"
    using assms(1) connect_to_database_queries by blast
  then have "queries ?s' = [QNewest]"
    by (simp add: close_connection_def log_info_def get_newest_crawl_date_queries)
  moreover have "\<not> connection_open ?s'"
    by (simp add: close_connection_def log_info_def)
  ultimately show ?thesis
    by (simp add: load_home_page_data_no_marker [OF assms, of parse])
qed

theorem metric_fetchers_empty_result_witness:
  "empty_and_logged new_session
     (fetch_openings_statistics_metrics (no_rows :: date warehouse) (2024, 4, 8) new_session)
   \<and> empty_and_logged new_session (fetch_openings_history (no_rows :: date warehouse) new_session)
   \<and> empty_and_logged new_session
       (fetch_data_role (no_rows :: date warehouse) (2024, 4, 8) new_session)
   \<and> empty_and_logged new_session
       (fetch_data_tool (no_rows :: date warehouse) (2024, 4, 8) new_session)
   \<and> empty_and_logged new_session
       (fetch_openings_company (no_rows :: date warehouse) (2024, 4, 8) new_session)
   \<and> empty_and_logged new_session
       (fetch_taiepi_area_openings (no_rows :: date warehouse) (2024, 4, 8) new_session)
   \<and> empty_and_logged new_session
       (fetch_tool_by_data_role (no_rows :: date warehouse) new_session)
   \<and> empty_and_logged new_session (fetch_tool_trends (no_rows :: date warehouse) new_session)
   \<and> empty_and_logged new_session
       (fetch_openings_statistics_metrics (failing :: date warehouse) (2024, 4, 8) new_session)
   \<and> empty_and_logged new_session
       (fetch_openings_company (failing :: date warehouse) (2024, 4, 8) new_session)
   \<and> apply_adjust_company_name
         [\<lparr>cols = \<lparr>company_rank = 1, company_name = '')('', opening_count = 3\<rparr>,
           crawl_date = (2024, 4, 8) :: date\<rparr>] = Inl AttributeError
   \<and> empty_and_logged new_session
       (fetch_openings_company
          (no_rows\<lparr>company_answer := \<lambda>d.
             Inr [\<lparr>cols = \<lparr>company_rank = 1, company_name = '')('', opening_count = 3\<rparr>,
                   crawl_date = d\<rparr>]\<rparr> :: date warehouse) (2024, 4, 8) new_session)"
proof -
  let ?w = "no_rows\<lparr>company_answer := \<lambda>d.
             Inr [\<lparr>cols = \<lparr>company_rank = 1, company_name = '')('', opening_count = 3\<rparr>,
                   crawl_date = d\<rparr>]\<rparr> :: date warehouse"
  have r: "apply_adjust_company_name
         [\<lparr>cols = \<lparr>company_rank = 1, company_name = '')('', opening_count = 3\<rparr>,
           crawl_date = (2024, 4, 8) :: date\<rparr>] = Inl AttributeError"
    by (simp add: adjust_company_name_def)
  have "company_answer ?w (2024, 4, 8) =
          Inr [\<lparr>cols = \<lparr>company_rank = 1, company_name = '')('', opening_count = 3\<rparr>,
                crawl_date = (2024, 4, 8) :: date\<rparr>]"
    by (simp add: no_rows_def)
  with r have c: "empty_and_logged new_session
       (fetch_openings_company ?w (2024, 4, 8) new_session)"
    using metric_fetchers_empty_result [of ?w "(2024, 4, 8)" new_session]
    by blast
  show ?thesis
    using metric_fetchers_empty_result [of "no_rows :: date warehouse" "(2024, 4, 8)" new_session]
      metric_fetchers_empty_result [of "failing :: date warehouse" "(2024, 4, 8)" new_session]
      r c
    by (simp add: no_rows_def failing_def)
qed

theorem newest_crawl_date_resolution_witness:
  "fst (get_newest_crawl_date
          (no_rows\<lparr>newest_answer := Inr (newest_query weekly_metrics)\<rparr>) new_session)
     = Some (2024, 4, 8)
   \<and> fst (get_newest_crawl_date (failing :: date warehouse) new_session) = None
   \<and> connect_to_database (no_rows :: marker warehouse) = Inr new_session
   \<and> fst (get_newest_crawl_date (no_rows :: marker warehouse) new_session) = None
   \<and> (\<exists>res s'. load_home_page_data iso_timestamp no_rows = (res, Some s')
         \<and> queries s' = [QNewest])"
  using newest_crawl_date_resolution [of
      "no_rows\<lparr>newest_answer := Inr (newest_query weekly_metrics)\<rparr>" weekly_metrics
      new_session DatabaseError no_rows new_session iso_timestamp]
    newest_crawl_date_resolution [of "failing :: date warehouse" weekly_metrics
      new_session DatabaseError no_rows new_session iso_timestamp]
  by (simp add: no_rows_def failing_def weekly_metrics_def connect_to_database_def
      get_newest_crawl_date_def execute_query_def log_info_def log_error_def)

theorem load_home_page_data_unbound_local_witness:
  "connect_to_database (no_rows :: marker warehouse) = Inr new_session
   \<and> fst (get_newest_crawl_date (no_rows :: marker warehouse) new_session) = None
   \<and> (\<exists>s'. load_home_page_data iso_timestamp no_rows = (Inl UnboundLocalError, Some s')
         \<and> \<not> connection_open s' \<and> queries s' = [QNewest])"
  using load_home_page_data_unbound_local [of "no_rows :: marker warehouse" new_session
      iso_timestamp]
  by (simp add: no_rows_def connect_to_database_def
      get_newest_crawl_date_def execute_query_def log_info_def log_error_def)

section \<open>Properties of the fetch wrappers\<close>

lemma iso_alone_april_1: "iso_alone ''2024-04-01'' = Some ((2024, 4, 1), 0)"
  by (simp add: iso_alone_def iso_day_def digit_val_def)

lemma iso_alone_april_8: "iso_alone ''2024-04-08'' = Some ((2024, 4, 8), 0)"
  by (simp add: iso_alone_def iso_day_def digit_val_def)

lemma iso_timestamp_april_8: "iso_timestamp ''2024-04-08'' ''2024-04-08'' = Some ((2024, 4, 8), 0)"
  by (simp add: iso_timestamp_def same_format_def iso_alone_april_8)

lemma iso_timestamp_april_1: "iso_timestamp ''2024-04-08'' ''2024-04-01'' = Some ((2024, 4, 1), 0)"
  by (simp add: iso_timestamp_def same_format_def iso_alone_april_1)

lemma iso_timestamp_unknown: "iso_timestamp f ''unknown'' = None"
  by (simp add: iso_timestamp_def iso_alone_def iso_day_def)

lemma iso_timestamp_other_format:
  "iso_timestamp ''2024-04-08'' ''2024-04-01 10:30:00'' = None"
  by (simp add: iso_timestamp_def same_format_def)

lemmas sample_defs =
  sample_warehouse_def dated_def fresh_def no_rows_def april_statistics_row_def
  unknown_role_row_def python_tool_def acme_def xinyi_def dirty_roles_def dated_statistics_def

lemmas fetcher_defs =
  fetch_openings_statistics_metrics_def fetch_openings_history_def fetch_data_role_def
  fetch_data_tool_def fetch_openings_company_def fetch_taiepi_area_openings_def
  fetch_frame_def execute_query_def log_info_def log_error_def new_session_def
  get_newest_crawl_date_def

lemmas wrapper_defs =
  fetch_openings_statistics_for_dashboard_def fetch_data_role_for_dashboard_def
  fetch_data_tools_for_dashboard_def fetch_openings_company_for_dashboard_def
  fetch_taiepi_area_openings_for_dashboard_def validate_or_filter_def
  fetch_historical_total_openings_for_dashboard_def to_date_def all_equal_def
  coerce_crawl_date_def

lemmas iso_samples =
  iso_timestamp_april_1 iso_timestamp_april_8 iso_timestamp_unknown iso_timestamp_other_format

lemma coerce_cells_length:
  "coerce_cells parse fmt data = Inr data' \<Longrightarrow> length data' = length data"
  by (induction data arbitrary: data') (auto split: sum.splits)

lemma coerce_crawl_date_nonempty:
  "coerce_crawl_date parse data = Inr data' \<Longrightarrow> data' \<noteq> [] \<Longrightarrow> data \<noteq> []"
  using coerce_cells_length [of parse _ data data'] by (auto simp: coerce_crawl_date_def)

lemma to_date_in_other:
  "(\<And>s. v \<noteq> Str s) \<Longrightarrow> to_date_in parse fmt v = to_date parse v"
  by (cases "(parse, fmt, v)" rule: to_date_in.cases) auto

lemma coerce_cells_timestamps:
  assumes "\<forall>r \<in> set data. \<exists>t. crawl_date r = Timestamp day t"
  shows "coerce_cells parse fmt data = Inr (map (\<lambda>r. r\<lparr>crawl_date := Date day\<rparr>) data)"
  using assms
proof (induction data)
  case Nil
  then show ?case by simp
next
  case (Cons r rs)
  then obtain t where t: "crawl_date r = Timestamp day t" by auto
  then have "to_date_in parse fmt (crawl_date r) = Inr day"
    by (simp add: to_date_in_other to_date_def)
  then show ?case using Cons by simp
qed

lemma coerce_crawl_date_timestamps:
  "\<forall>r \<in> set data. \<exists>t. crawl_date r = Timestamp day t \<Longrightarrow>
   coerce_crawl_date parse data = Inr (map (\<lambda>r. r\<lparr>crawl_date := Date day\<rparr>) data)"
  by (simp add: coerce_crawl_date_def coerce_cells_timestamps)

lemma datetime64_eq_same_day:
  "datetime64_eq parse c v \<Longrightarrow> to_date parse c = to_date parse v"
  by (cases "(parse, c, v)" rule: datetime64_eq.cases) (auto simp: to_date_def)

lemma all_equal_same_day:
  "all_equal parse column v \<Longrightarrow> \<forall>c \<in> set column. to_date parse c = to_date parse v"
  by (auto simp: all_equal_def list_all_iff datetime64_eq_same_day split: if_splits)

lemma statistics_wrapper_mismatch:
  assumes "fetch_openings_statistics_metrics w d s = (data, s1)"
    and "\<exists>r \<in> set data. to_date parse (crawl_date r) \<noteq> to_date parse d"
  shows "fetch_openings_statistics_for_dashboard parse w d s =
           (Inr [], log_error
              ''Data inconsistency detected: 'crawl_date' does not match the provided date.'' s1)"
proof -
  from assms(2) have "data \<noteq> []" by auto
  moreover from assms(2) have "\<not> all_equal parse (map crawl_date data) d"
    using all_equal_same_day [of parse "map crawl_date data" d] by auto
  ultimately show ?thesis
    by (simp add: fetch_openings_statistics_for_dashboard_def assms(1))
qed

lemma statistics_wrapper_never_raises:
  "\<exists>df. fst (fetch_openings_statistics_for_dashboard parse w d s) = Inr df
        \<and> (\<forall>r \<in> set df. to_date parse (crawl_date r) = to_date parse d)"
proof -
  obtain data s1 where f: "fetch_openings_statistics_metrics w d s = (data, s1)"
    by (cases "fetch_openings_statistics_metrics w d s")
  show ?thesis
    using all_equal_same_day [of parse "map crawl_date data" d]
    by (auto simp: fetch_openings_statistics_for_dashboard_def f)
qed

lemma statistics_wrapper_compares_raw:
  assumes "fetch_openings_statistics_metrics w d s = (data, s1)" and "data \<noteq> []"
  shows "fst (fetch_openings_statistics_for_dashboard parse w d s) =
           (if all_equal parse (map crawl_date data) d then Inr data else Inr [])"
  using assms by (simp add: fetch_openings_statistics_for_dashboard_def)

lemma role_wrapper_mismatch:
  assumes "fetch_data_role w d s = (data, s1)"
    and "coerce_crawl_date parse data = Inr data'"
    and "to_date parse d = Inr day"
    and "\<exists>r \<in> set data'. crawl_date r \<noteq> Date day"
  shows "\<exists>msg. fetch_data_role_for_dashboard parse w d s = (Inr [], log_error msg s1)"
proof -
  from assms(4) have "data' \<noteq> []" by auto
  then have "data \<noteq> []" using assms(2) by (rule coerce_crawl_date_nonempty [rotated])
  moreover have "\<not> list_all (\<lambda>r. crawl_date r = Date day) data'"
    using assms(4) by (auto simp: list_all_iff)
  ultimately have "fetch_data_role_for_dashboard parse w d s =
           (Inr [], log_error
              ''Data inconsistency detected: 'crawl_date' does not match the provided date.'' s1)"
    by (simp add: fetch_data_role_for_dashboard_def assms(1,2,3))
  then show ?thesis by (rule exI)
qed

lemma role_wrapper_accepts:
  assumes "fetch_data_role w d s = (data, s1)" and "data \<noteq> []"
    and "coerce_crawl_date parse data = Inr data'"
    and "to_date parse d = Inr day"
    and "\<forall>r \<in> set data'. crawl_date r = Date day"
  shows "fetch_data_role_for_dashboard parse w d s = (Inr data', s1)"
  using assms by (simp add: fetch_data_role_for_dashboard_def list_all_iff)

lemma role_wrapper_raises:
  assumes "fetch_data_role w d s = (data, s1)" and "data \<noteq> []"
  shows "coerce_crawl_date parse data = Inl e \<Longrightarrow>
           fetch_data_role_for_dashboard parse w d s = (Inl e, s1)"
    and "coerce_crawl_date parse data = Inr data' \<Longrightarrow> to_date parse d = Inl e \<Longrightarrow>
           fetch_data_role_for_dashboard parse w d s = (Inl e, s1)"
  using assms by (simp_all add: fetch_data_role_for_dashboard_def)

lemma validate_or_filter_mismatch:
  assumes "coerce_crawl_date parse data = Inr data'"
    and "to_date parse d = Inr day"
    and "\<exists>r \<in> set data'. crawl_date r \<noteq> Date day"
  shows "\<exists>msg. validate_or_filter parse ok_msg bad_msg none_msg d (data, s1) =
           (Inr (filter (\<lambda>r. crawl_date r = Date day) data'), log_error msg s1)"
proof -
  from assms(3) have "data' \<noteq> []" by auto
  then have "data \<noteq> []" using assms(1) by (rule coerce_crawl_date_nonempty [rotated])
  moreover have "\<not> list_all (\<lambda>r. crawl_date r = Date day) data'"
    using assms(3) by (auto simp: list_all_iff)
  ultimately have "validate_or_filter parse ok_msg bad_msg none_msg d (data, s1) =
           (Inr (filter (\<lambda>r. crawl_date r = Date day) data'), log_error bad_msg s1)"
    by (simp add: validate_or_filter_def assms(1,2))
  then show ?thesis by (rule exI)
qed

lemma validate_or_filter_accepts:
  assumes "data \<noteq> []"
    and "coerce_crawl_date parse data = Inr data'"
    and "to_date parse d = Inr day"
    and "\<forall>r \<in> set data'. crawl_date r = Date day"
  shows "\<exists>msg. validate_or_filter parse ok_msg bad_msg none_msg d (data, s1) =
           (Inr data', log_info msg s1)"
proof -
  have "validate_or_filter parse ok_msg bad_msg none_msg d (data, s1) =
           (Inr data', log_info ok_msg s1)"
    using assms by (simp add: validate_or_filter_def list_all_iff)
  then show ?thesis by (rule exI)
qed

lemma validate_or_filter_raises:
  assumes "data \<noteq> []"
  shows "coerce_crawl_date parse data = Inl e \<Longrightarrow>
           validate_or_filter parse ok_msg bad_msg none_msg d (data, s1) = (Inl e, s1)"
    and "coerce_crawl_date parse data = Inr data' \<Longrightarrow> to_date parse d = Inl e \<Longrightarrow>
           validate_or_filter parse ok_msg bad_msg none_msg d (data, s1) = (Inl e, s1)"
  using assms by (simp_all add: validate_or_filter_def)

text \<open>
  Claim C1 (a mismatched crawl date), as amended. The openings-statistics wrapper never
  raises and returns only rows of the requested calendar day; when a fetched row is of
  another day it logs an error and returns the empty DataFrame. For the wrappers of data
  roles, data tools, top companies and the Taipei area: when \<open>pd.to_datetime\<close> succeeds on
  the fetched \<open>crawl_date\<close> column and on the requested date, and a converted row is of
  another calendar day, the wrapper logs an error and returns the empty DataFrame (data
  roles) or exactly the converted rows of the requested day (the other three); when
  \<open>pd.to_datetime\<close> raises on the column or on the requested date, the wrapper raises
  that error.
\<close>

theorem wrappers_discard_mismatched_rows:
  "(\<exists>df. fst (fetch_openings_statistics_for_dashboard parse w d s) = Inr df
         \<and> (\<forall>r \<in> set df. to_date parse (crawl_date r) = to_date parse d))
   \<and> (fetch_openings_statistics_metrics w d s = (sdata, s1)
        \<and> (\<exists>r \<in> set sdata. to_date parse (crawl_date r) \<noteq> to_date parse d)
      \<longrightarrow> (\<exists>msg. fetch_openings_statistics_for_dashboard parse w d s
                    = (Inr [], log_error msg s1)))
   \<and> (fetch_data_role w d s = (rdata, s2)
        \<and> coerce_crawl_date parse rdata = Inr rdata' \<and> to_date parse d = Inr day
        \<and> (\<exists>r \<in> set rdata'. crawl_date r \<noteq> Date day)
      \<longrightarrow> (\<exists>msg. fetch_data_role_for_dashboard parse w d s = (Inr [], log_error msg s2)))
   \<and> (fetch_data_role w d s = (rdata, s2) \<and> rdata \<noteq> []
        \<and> coerce_crawl_date parse rdata = Inl e
      \<longrightarrow> fetch_data_role_for_dashboard parse w d s = (Inl e, s2))
   \<and> (fetch_data_role w d s = (rdata, s2) \<and> rdata \<noteq> []
        \<and> coerce_crawl_date parse rdata = Inr rdata' \<and> to_date parse d = Inl e
      \<longrightarrow> fetch_data_role_for_dashboard parse w d s = (Inl e, s2))
   \<and> (fetch_data_tool w d s = (tdata, s3)
        \<and> coerce_crawl_date parse tdata = Inr tdata' \<and> to_date parse d = Inr day
        \<and> (\<exists>r \<in> set tdata'. crawl_date r \<noteq> Date day)
      \<longrightarrow> (\<exists>msg. fetch_data_tools_for_dashboard parse w d s
                    = (Inr (filter (\<lambda>r. crawl_date r = Date day) tdata'), log_error msg s3)))
   \<and> (fetch_data_tool w d s = (tdata, s3) \<and> tdata \<noteq> []
        \<and> coerce_crawl_date parse tdata = Inl e
      \<longrightarrow> fetch_data_tools_for_dashboard parse w d s = (Inl e, s3))
   \<and> (fetch_data_tool w d s = (tdata, s3) \<and> tdata \<noteq> []
        \<and> coerce_crawl_date parse tdata = Inr tdata' \<and> to_date parse d = Inl e
      \<longrightarrow> fetch_data_tools_for_dashboard parse w d s = (Inl e, s3))
   \<and> (fetch_openings_company w d s = (cdata, s4)
        \<and> coerce_crawl_date parse cdata = Inr cdata' \<and> to_date parse d = Inr day
        \<and> (\<exists>r \<in> set cdata'. crawl_date r \<noteq> Date day)
      \<longrightarrow> (\<exists>msg. fetch_openings_company_for_dashboard parse w d s
                    = (Inr (filter (\<lambda>r. crawl_date r = Date day) cdata'), log_error msg s4)))
   \<and> (fetch_openings_company w d s = (cdata, s4) \<and> cdata \<noteq> []
        \<and> coerce_crawl_date parse cdata = Inl e
      \<longrightarrow> fetch_openings_company_for_dashboard parse w d s = (Inl e, s4))
   \<and> (fetch_openings_company w d s = (cdata, s4) \<and> cdata \<noteq> []
        \<and> coerce_crawl_date parse cdata = Inr cdata' \<and> to_date parse d = Inl e
      \<longrightarrow> fetch_openings_company_for_dashboard parse w d s = (Inl e, s4))
   \<and> (fetch_taiepi_area_openings w d s = (adata, s5)
        \<and> coerce_crawl_date parse adata = Inr adata' \<and> to_date parse d = Inr day
        \<and> (\<exists>r \<in> set adata'. crawl_date r \<noteq> Date day)
      \<longrightarrow> (\<exists>msg. fetch_taiepi_area_openings_for_dashboard parse w d s
                    = (Inr (filter (\<lambda>r. crawl_date r = Date day) adata'), log_error msg s5)))
   \<and> (fetch_taiepi_area_openings w d s = (adata, s5) \<and> adata \<noteq> []
        \<and> coerce_crawl_date parse adata = Inl e
      \<longrightarrow> fetch_taiepi_area_openings_for_dashboard parse w d s = (Inl e, s5))
   \<and> (fetch_taiepi_area_openings w d s = (adata, s5) \<and> adata \<noteq> []
        \<and> coerce_crawl_date parse adata = Inr adata' \<and> to_date parse d = Inl e
      \<longrightarrow> fetch_taiepi_area_openings_for_dashboard parse w d s = (Inl e, s5))"
proof (intro conjI impI)
  show "\<exists>df. fst (fetch_openings_statistics_for_dashboard parse w d s) = Inr df
         \<and> (\<forall>r \<in> set df. to_date parse (crawl_date r) = to_date parse d)"
    by (rule statistics_wrapper_never_raises)
next
  assume "fetch_openings_statistics_metrics w d s = (sdata, s1)
          \<and> (\<exists>r \<in> set sdata. to_date parse (crawl_date r) \<noteq> to_date parse d)"
  then have "fetch_openings_statistics_for_dashboard parse w d s =
           (Inr [], log_error
              ''Data inconsistency detected: 'crawl_date' does not match the provided date.'' s1)"
    by (simp add: statistics_wrapper_mismatch)
  then show "\<exists>msg. fetch_openings_statistics_for_dashboard parse w d s
                 = (Inr [], log_error msg s1)"
    by (rule exI)
next
  assume "fetch_data_role w d s = (rdata, s2)
        \<and> coerce_crawl_date parse rdata = Inr rdata' \<and> to_date parse d = Inr day
        \<and> (\<exists>r \<in> set rdata'. crawl_date r \<noteq> Date day)"
  then show "\<exists>msg. fetch_data_role_for_dashboard parse w d s = (Inr [], log_error msg s2)"
    using role_wrapper_mismatch [of w d s rdata s2 parse rdata' day] by simp
next
  assume "fetch_data_role w d s = (rdata, s2) \<and> rdata \<noteq> []
        \<and> coerce_crawl_date parse rdata = Inl e"
  then show "fetch_data_role_for_dashboard parse w d s = (Inl e, s2)"
    by (simp add: role_wrapper_raises(1))
next
  assume "fetch_data_role w d s = (rdata, s2) \<and> rdata \<noteq> []
        \<and> coerce_crawl_date parse rdata = Inr rdata' \<and> to_date parse d = Inl e"
  then show "fetch_data_role_for_dashboard parse w d s = (Inl e, s2)"
    using role_wrapper_raises(2) [of w d s rdata s2 parse rdata' e] by simp
next
  assume a: "fetch_data_tool w d s = (tdata, s3)
        \<and> coerce_crawl_date parse tdata = Inr tdata' \<and> to_date parse d = Inr day
        \<and> (\<exists>r \<in> set tdata'. crawl_date r \<noteq> Date day)"
  show "\<exists>msg. fetch_data_tools_for_dashboard parse w d s
                    = (Inr (filter (\<lambda>r. crawl_date r = Date day) tdata'), log_error msg s3)"
    unfolding fetch_data_tools_for_dashboard_def
    using a by (simp add: validate_or_filter_mismatch [of parse tdata tdata' d day])
next
  assume a: "fetch_data_tool w d s = (tdata, s3) \<and> tdata \<noteq> []
        \<and> coerce_crawl_date parse tdata = Inl e"
  show "fetch_data_tools_for_dashboard parse w d s = (Inl e, s3)"
    unfolding fetch_data_tools_for_dashboard_def
    using a by (simp add: validate_or_filter_raises(1))
next
  assume a: "fetch_data_tool w d s = (tdata, s3) \<and> tdata \<noteq> []
        \<and> coerce_crawl_date parse tdata = Inr tdata' \<and> to_date parse d = Inl e"
  show "fetch_data_tools_for_dashboard parse w d s = (Inl e, s3)"
    unfolding fetch_data_tools_for_dashboard_def
    using a by (simp add: validate_or_filter_raises(2) [of tdata parse tdata' d e])
next
  assume a: "fetch_openings_company w d s = (cdata, s4)
        \<and> coerce_crawl_date parse cdata = Inr cdata' \<and> to_date parse d = Inr day
        \<and> (\<exists>r \<in> set cdata'. crawl_date r \<noteq> Date day)"
  show "\<exists>msg. fetch_openings_company_for_dashboard parse w d s
                    = (Inr (filter (\<lambda>r. crawl_date r = Date day) cdata'), log_error msg s4)"
    unfolding fetch_openings_company_for_dashboard_def
    using a by (simp add: validate_or_filter_mismatch [of parse cdata cdata' d day])
next
  assume a: "fetch_openings_company w d s = (cdata, s4) \<and> cdata \<noteq> []
        \<and> coerce_crawl_date parse cdata = Inl e"
  show "fetch_openings_company_for_dashboard parse w d s = (Inl e, s4)"
    unfolding fetch_openings_company_for_dashboard_def
    using a by (simp add: validate_or_filter_raises(1))
next
  assume a: "fetch_openings_company w d s = (cdata, s4) \<and> cdata \<noteq> []
        \<and> coerce_crawl_date parse cdata = Inr cdata' \<and> to_date parse d = Inl e"
  show "fetch_openings_company_for_dashboard parse w d s = (Inl e, s4)"
    unfolding fetch_openings_company_for_dashboard_def
    using a by (simp add: validate_or_filter_raises(2) [of cdata parse cdata' d e])
next
  assume a: "fetch_taiepi_area_openings w d s = (adata, s5)
        \<and> coerce_crawl_date parse adata = Inr adata' \<and> to_date parse d = Inr day
        \<and> (\<exists>r \<in> set adata'. crawl_date r \<noteq> Date day)"
  show "\<exists>msg. fetch_taiepi_area_openings_for_dashboard parse w d s
                    = (Inr (filter (\<lambda>r. crawl_date r = Date day) adata'), log_error msg s5)"
    unfolding fetch_taiepi_area_openings_for_dashboard_def
    using a by (simp add: validate_or_filter_mismatch [of parse adata adata' d day])
next
  assume a: "fetch_taiepi_area_openings w d s = (adata, s5) \<and> adata \<noteq> []
        \<and> coerce_crawl_date parse adata = Inl e"
  show "fetch_taiepi_area_openings_for_dashboard parse w d s = (Inl e, s5)"
    unfolding fetch_taiepi_area_openings_for_dashboard_def
    using a by (simp add: validate_or_filter_raises(1))
next
  assume a: "fetch_taiepi_area_openings w d s = (adata, s5) \<and> adata \<noteq> []
        \<and> coerce_crawl_date parse adata = Inr adata' \<and> to_date parse d = Inl e"
  show "fetch_taiepi_area_openings_for_dashboard parse w d s = (Inl e, s5)"
    unfolding fetch_taiepi_area_openings_for_dashboard_def
    using a by (simp add: validate_or_filter_raises(2) [of adata parse adata' d e])
qed

theorem wrappers_discard_mismatched_rows_witness:
  "fst (fetch_data_role (sample_warehouse [Str ''2024-04-08'', Str ''2024-04-01''])
          (Str ''2024-04-08'') new_session)
     = dated (cols unknown_role_row) [Str ''2024-04-08'', Str ''2024-04-01'']
   \<and> coerce_crawl_date iso_timestamp
         (dated (cols unknown_role_row) [Str ''2024-04-08'', Str ''2024-04-01''])
       = Inr (dated (cols unknown_role_row) [Date (2024, 4, 8), Date (2024, 4, 1)])
   \<and> to_date iso_timestamp (Str ''2024-04-08'') = Inr (2024, 4, 8)
   \<and> fst (fetch_openings_statistics_for_dashboard iso_timestamp
            (sample_warehouse [Str ''2024-04-08'', Str ''2024-04-01''])
            (Str ''2024-04-08'') new_session) = Inr []
   \<and> fst (fetch_data_role_for_dashboard iso_timestamp
            (sample_warehouse [Str ''2024-04-08'', Str ''2024-04-01''])
            (Str ''2024-04-08'') new_session) = Inr []
   \<and> fst (fetch_data_tools_for_dashboard iso_timestamp
            (sample_warehouse [Str ''2024-04-08'', Str ''2024-04-01''])
            (Str ''2024-04-08'') new_session)
       = Inr [\<lparr>cols = python_tool, crawl_date = Date (2024, 4, 8)\<rparr>]
   \<and> fst (fetch_openings_company_for_dashboard iso_timestamp
            (sample_warehouse [Str ''2024-04-08'', Str ''2024-04-01''])
            (Str ''2024-04-08'') new_session)
       = Inr [\<lparr>cols = acme\<lparr>company_name := ''Acme''\<rparr>, crawl_date = Date (2024, 4, 8)\<rparr>]
   \<and> fst (fetch_taiepi_area_openings_for_dashboard iso_timestamp
            (sample_warehouse [Str ''2024-04-08'', Str ''2024-04-01''])
            (Str ''2024-04-08'') new_session)
       = Inr [\<lparr>cols = xinyi, crawl_date = Date (2024, 4, 8)\<rparr>]
   \<and> coerce_crawl_date iso_timestamp
         (dated (cols unknown_role_row) [Str ''2024-04-08'', Str ''2024-04-01 10:30:00''])
       = Inl DateParseError
   \<and> fst (fetch_data_role_for_dashboard iso_timestamp
            (sample_warehouse [Str ''2024-04-08'', Str ''2024-04-01 10:30:00''])
            (Str ''2024-04-08'') new_session) = Inl DateParseError
   \<and> fst (fetch_data_tools_for_dashboard iso_timestamp
            (sample_warehouse [Str ''2024-04-08'', Str ''2024-04-01 10:30:00''])
            (Str ''2024-04-08'') new_session) = Inl DateParseError
   \<and> fst (fetch_openings_company_for_dashboard iso_timestamp
            (sample_warehouse [Str ''2024-04-08'', Str ''2024-04-01 10:30:00''])
            (Str ''2024-04-08'') new_session) = Inl DateParseError
   \<and> fst (fetch_taiepi_area_openings_for_dashboard iso_timestamp
            (sample_warehouse [Str ''2024-04-08'', Str ''2024-04-01 10:30:00''])
            (Str ''2024-04-08'') new_session) = Inl DateParseError
   \<and> to_date iso_timestamp (Str ''unknown'') = Inl DateParseError
   \<and> fst (fetch_data_role_for_dashboard iso_timestamp (sample_warehouse [Str ''2024-04-08''])
            (Str ''unknown'') new_session) = Inl DateParseError
   \<and> fst (fetch_data_tools_for_dashboard iso_timestamp (sample_warehouse [Str ''2024-04-08''])
            (Str ''unknown'') new_session) = Inl DateParseError
   \<and> fst (fetch_openings_company_for_dashboard iso_timestamp
            (sample_warehouse [Str ''2024-04-08'']) (Str ''unknown'') new_session)
       = Inl DateParseError
   \<and> fst (fetch_taiepi_area_openings_for_dashboard iso_timestamp
            (sample_warehouse [Str ''2024-04-08'']) (Str ''unknown'') new_session)
       = Inl DateParseError"
proof -
  let ?s = new_session
  let ?a = "sample_warehouse [Str ''2024-04-08'', Str ''2024-04-01'']"
  let ?b = "sample_warehouse [Str ''2024-04-08'', Str ''2024-04-01 10:30:00'']"
  let ?c = "sample_warehouse [Str ''2024-04-08'']"
  let ?d = "Str ''2024-04-08''"
  let ?u = "Str ''unknown''"
  show ?thesis
    using wrappers_discard_mismatched_rows [where w = ?a and d = ?d and s = ?s
        and parse = iso_timestamp and day = "(2024, 4, 8)" and e = DateParseError
        and sdata = "fst (fetch_openings_statistics_metrics ?a ?d ?s)"
        and ?s1.0 = "snd (fetch_openings_statistics_metrics ?a ?d ?s)"
        and rdata = "fst (fetch_data_role ?a ?d ?s)"
        and ?s2.0 = "snd (fetch_data_role ?a ?d ?s)"
        and rdata' = "projr (coerce_crawl_date iso_timestamp (fst (fetch_data_role ?a ?d ?s)))"
        and tdata = "fst (fetch_data_tool ?a ?d ?s)"
        and ?s3.0 = "snd (fetch_data_tool ?a ?d ?s)"
        and tdata' = "projr (coerce_crawl_date iso_timestamp (fst (fetch_data_tool ?a ?d ?s)))"
        and cdata = "fst (fetch_openings_company ?a ?d ?s)"
        and ?s4.0 = "snd (fetch_openings_company ?a ?d ?s)"
        and cdata' =
          "projr (coerce_crawl_date iso_timestamp (fst (fetch_openings_company ?a ?d ?s)))"
        and adata = "fst (fetch_taiepi_area_openings ?a ?d ?s)"
        and ?s5.0 = "snd (fetch_taiepi_area_openings ?a ?d ?s)"
        and adata' =
          "projr (coerce_crawl_date iso_timestamp (fst (fetch_taiepi_area_openings ?a ?d ?s)))"]
      wrappers_discard_mismatched_rows [where w = ?b and d = ?d and s = ?s
        and parse = iso_timestamp and e = DateParseError
        and rdata = "fst (fetch_data_role ?b ?d ?s)"
        and ?s2.0 = "snd (fetch_data_role ?b ?d ?s)"
        and tdata = "fst (fetch_data_tool ?b ?d ?s)"
        and ?s3.0 = "snd (fetch_data_tool ?b ?d ?s)"
        and cdata = "fst (fetch_openings_company ?b ?d ?s)"
        and ?s4.0 = "snd (fetch_openings_company ?b ?d ?s)"
        and adata = "fst (fetch_taiepi_area_openings ?b ?d ?s)"
        and ?s5.0 = "snd (fetch_taiepi_area_openings ?b ?d ?s)"]
      wrappers_discard_mismatched_rows [where w = ?c and d = ?u and s = ?s
        and parse = iso_timestamp and e = DateParseError
        and rdata = "fst (fetch_data_role ?c ?u ?s)"
        and ?s2.0 = "snd (fetch_data_role ?c ?u ?s)"
        and rdata' = "projr (coerce_crawl_date iso_timestamp (fst (fetch_data_role ?c ?u ?s)))"
        and tdata = "fst (fetch_data_tool ?c ?u ?s)"
        and ?s3.0 = "snd (fetch_data_tool ?c ?u ?s)"
        and tdata' = "projr (coerce_crawl_date iso_timestamp (fst (fetch_data_tool ?c ?u ?s)))"
        and cdata = "fst (fetch_openings_company ?c ?u ?s)"
        and ?s4.0 = "snd (fetch_openings_company ?c ?u ?s)"
        and cdata' =
          "projr (coerce_crawl_date iso_timestamp (fst (fetch_openings_company ?c ?u ?s)))"
        and adata = "fst (fetch_taiepi_area_openings ?c ?u ?s)"
        and ?s5.0 = "snd (fetch_taiepi_area_openings ?c ?u ?s)"
        and adata' =
          "projr (coerce_crawl_date iso_timestamp (fst (fetch_taiepi_area_openings ?c ?u ?s)))"]
    by (simp add: sample_defs fetcher_defs wrapper_defs iso_samples adjust_company_name_def
        split_underscore_first_def)
qed

text \<open>
  Claim C1 as stated says that a wrapper never raises. The data-role wrapper, given a
  fetched row whose \<open>crawl_date\<close> is the string \<open>unknown\<close> (which differs from the
  requested \<open>2024-04-08\<close>), raises the conversion error of \<open>pd.to_datetime\<close>.
\<close>

theorem role_wrapper_raises_on_unparsable_date:
  "fst (fetch_data_role dirty_roles (Str ''2024-04-08'') new_session) = [unknown_role_row]
   \<and> crawl_date unknown_role_row \<noteq> Str ''2024-04-08''
   \<and> fst (fetch_data_role_for_dashboard iso_timestamp dirty_roles (Str ''2024-04-08'')
            new_session) = Inl DateParseError"
  by (simp add: fetch_data_role_for_dashboard_def fetch_data_role_def fetch_frame_def
      execute_query_def dirty_roles_def no_rows_def unknown_role_row_def to_date_def
      coerce_crawl_date_def iso_timestamp_unknown log_info_def)

lemma all_equal_cell:
  assumes "all_equal parse column v" and "c \<in> set column"
  shows "c = v \<or> (\<exists>day t str. c = Timestamp day t \<and> v = Str str \<and> parse str str = Some (day, t))"
proof (cases "list_all is_Timestamp column")
  case True
  with assms have "list_all (\<lambda>c. datetime64_eq parse c v) column"
    by (simp add: all_equal_def)
  with assms(2) have "datetime64_eq parse c v" by (simp add: list_all_iff)
  then show ?thesis
    by (cases "(parse, c, v)" rule: datetime64_eq.cases) auto
next
  case False
  with assms have "list_all (\<lambda>c. c = v) column" by (simp add: all_equal_def)
  with assms(2) show ?thesis by (simp add: list_all_iff)
qed

lemma statistics_wrapper_accepted_cells:
  assumes "fst (fetch_openings_statistics_for_dashboard parse w d s) = Inr df" and "r \<in> set df"
  shows "crawl_date r = d
         \<or> (\<exists>day t str. crawl_date r = Timestamp day t \<and> d = Str str
                \<and> parse str str = Some (day, t))"
proof -
  obtain data s1 where f: "fetch_openings_statistics_metrics w d s = (data, s1)"
    by (cases "fetch_openings_statistics_metrics w d s")
  from assms f have "all_equal parse (map crawl_date data) d \<and> df = data"
    by (auto simp: fetch_openings_statistics_for_dashboard_def split: if_splits)
  with assms(2) show ?thesis
    using all_equal_cell [of parse "map crawl_date data" d "crawl_date r"] by auto
qed

lemma coerce_cells_strings:
  assumes "\<forall>r \<in> set data. \<exists>str t. crawl_date r = Str str \<and> parse f str = Some (day, t)"
  shows "coerce_cells parse (Some f) data = Inr (map (\<lambda>r. r\<lparr>crawl_date := Date day\<rparr>) data)"
  using assms
proof (induction data)
  case Nil
  then show ?case by simp
next
  case (Cons r rs)
  then obtain str t where "crawl_date r = Str str" and "parse f str = Some (day, t)" by auto
  then have "to_date_in parse (Some f) (crawl_date r) = Inr day" by simp
  then show ?case using Cons by simp
qed

lemma coerce_crawl_date_strings:
  assumes "crawl_date r0 = Str f"
    and "\<forall>r \<in> set (r0 # rest). \<exists>str t. crawl_date r = Str str \<and> parse f str = Some (day, t)"
  shows "coerce_crawl_date parse (r0 # rest)
           = Inr (map (\<lambda>r. r\<lparr>crawl_date := Date day\<rparr>) (r0 # rest))"
proof -
  have "coerce_cells parse (Some f) (r0 # rest)
      = Inr (map (\<lambda>r. r\<lparr>crawl_date := Date day\<rparr>) (r0 # rest))"
    using assms(2) by (rule coerce_cells_strings)
  moreover have "format_source (map crawl_date (r0 # rest)) = Some f"
    using assms(1) by simp
  ultimately show ?thesis
    by (simp only: coerce_crawl_date_def)
qed

lemma iso_timestamp_april_8_times:
  "iso_timestamp ''2024-04-08 10:30:00'' ''2024-04-08 10:30:00'' = Some ((2024, 4, 8), 37800)"
  "iso_timestamp ''2024-04-08 10:30:00'' ''2024-04-08 00:00:00'' = Some ((2024, 4, 8), 0)"
  by (simp_all add: iso_timestamp_def same_format_def iso_alone_def iso_day_def iso_time_def
      digit_val_def)

text \<open>
  Claim C2 (comparison at calendar-date granularity) as stated covers every validating
  wrapper. The openings-statistics wrapper compares the fetched cells with the argument
  as they are: requested the string \<open>2024-04-08\<close>, it answers a fetched row dated
  \<open>datetime.date(2024, 4, 8)\<close> and a fetched row stamped 10:30:00 on that day, each
  of the requested calendar day, with a logged inconsistency and the empty DataFrame,
  where the data-role wrapper accepts the same cells.
\<close>

theorem statistics_wrapper_rejects_same_day:
  "to_date iso_timestamp (Date (2024, 4, 8)) = to_date iso_timestamp (Str ''2024-04-08'')
   \<and> fst (fetch_openings_statistics_metrics dated_statistics (Str ''2024-04-08'') new_session)
       = [april_statistics_row (Date (2024, 4, 8))]
   \<and> fst (fetch_openings_statistics_for_dashboard iso_timestamp dated_statistics
            (Str ''2024-04-08'') new_session) = Inr []
   \<and> last (logs (snd (fetch_openings_statistics_for_dashboard iso_timestamp dated_statistics
            (Str ''2024-04-08'') new_session)))
       = (ERROR, ''Data inconsistency detected: 'crawl_date' does not match the provided date.'')
   \<and> fst (fetch_data_role_for_dashboard iso_timestamp dated_statistics (Str ''2024-04-08'')
            new_session) = Inr [unknown_role_row\<lparr>crawl_date := Date (2024, 4, 8)\<rparr>]
   \<and> to_date iso_timestamp (Timestamp (2024, 4, 8) 37800)
       = to_date iso_timestamp (Str ''2024-04-08'')
   \<and> fst (fetch_openings_statistics_metrics (sample_warehouse [Timestamp (2024, 4, 8) 37800])
            (Str ''2024-04-08'') new_session)
       = [april_statistics_row (Timestamp (2024, 4, 8) 37800)]
   \<and> fst (fetch_openings_statistics_for_dashboard iso_timestamp
            (sample_warehouse [Timestamp (2024, 4, 8) 37800]) (Str ''2024-04-08'') new_session)
       = Inr []
   \<and> last (logs (snd (fetch_openings_statistics_for_dashboard iso_timestamp
            (sample_warehouse [Timestamp (2024, 4, 8) 37800]) (Str ''2024-04-08'') new_session)))
       = (ERROR, ''Data inconsistency detected: 'crawl_date' does not match the provided date.'')
   \<and> fst (fetch_data_role_for_dashboard iso_timestamp
            (sample_warehouse [Timestamp (2024, 4, 8) 37800]) (Str ''2024-04-08'') new_session)
       = Inr [unknown_role_row\<lparr>crawl_date := Date (2024, 4, 8)\<rparr>]"
  by (simp add: sample_defs fetcher_defs wrapper_defs iso_samples)

text \<open>
  Claim C2, as amended. The wrappers of data roles, data tools, top companies and the
  Taipei area compare after \<open>pd.to_datetime\<close> has turned the fetched column and the
  requested value into calendar dates: when every converted row is of the requested day
  the wrapper returns the converted rows; a column of timestamps of one day converts to
  that day whatever the times, and so does a column of strings that read, in the format
  of the first of them, as timestamps of one day. The openings-statistics wrapper compares the fetched
  cells as they are: a row it returns holds the requested value itself, or the timestamp,
  to the second, that the requested string denotes.
\<close>

theorem coercing_wrappers_compare_dates:
  "(fetch_data_role w d s = (rdata, s2) \<and> rdata \<noteq> []
        \<and> coerce_crawl_date parse rdata = Inr rdata' \<and> to_date parse d = Inr day
        \<and> (\<forall>r \<in> set rdata'. crawl_date r = Date day)
      \<longrightarrow> fetch_data_role_for_dashboard parse w d s = (Inr rdata', s2))
   \<and> (fetch_data_tool w d s = (tdata, s3) \<and> tdata \<noteq> []
        \<and> coerce_crawl_date parse tdata = Inr tdata' \<and> to_date parse d = Inr day
        \<and> (\<forall>r \<in> set tdata'. crawl_date r = Date day)
      \<longrightarrow> (\<exists>msg. fetch_data_tools_for_dashboard parse w d s = (Inr tdata', log_info msg s3)))
   \<and> (fetch_openings_company w d s = (cdata, s4) \<and> cdata \<noteq> []
        \<and> coerce_crawl_date parse cdata = Inr cdata' \<and> to_date parse d = Inr day
        \<and> (\<forall>r \<in> set cdata'. crawl_date r = Date day)
      \<longrightarrow> (\<exists>msg. fetch_openings_company_for_dashboard parse w d s
                    = (Inr cdata', log_info msg s4)))
   \<and> (fetch_taiepi_area_openings w d s = (adata, s5) \<and> adata \<noteq> []
        \<and> coerce_crawl_date parse adata = Inr adata' \<and> to_date parse d = Inr day
        \<and> (\<forall>r \<in> set adata'. crawl_date r = Date day)
      \<longrightarrow> (\<exists>msg. fetch_taiepi_area_openings_for_dashboard parse w d s
                    = (Inr adata', log_info msg s5)))
   \<and> ((\<forall>r \<in> set (data :: ('a, marker) frame). \<exists>t. crawl_date r = Timestamp day t)
      \<longrightarrow> coerce_crawl_date parse data = Inr (map (\<lambda>r. r\<lparr>crawl_date := Date day\<rparr>) data))
   \<and> (crawl_date (r0 :: ('b, marker) row) = Str f
        \<and> (\<forall>r \<in> set (r0 # rest). \<exists>str t. crawl_date r = Str str
               \<and> parse f str = Some (day, t))
      \<longrightarrow> coerce_crawl_date parse (r0 # rest)
            = Inr (map (\<lambda>r. r\<lparr>crawl_date := Date day\<rparr>) (r0 # rest)))
   \<and> (fst (fetch_openings_statistics_for_dashboard parse w d s) = Inr df \<and> row \<in> set df
      \<longrightarrow> crawl_date row = d
          \<or> (\<exists>day' t str. crawl_date row = Timestamp day' t \<and> d = Str str
                 \<and> parse str str = Some (day', t)))"
proof (intro conjI impI)
  assume "fetch_data_role w d s = (rdata, s2) \<and> rdata \<noteq> []
        \<and> coerce_crawl_date parse rdata = Inr rdata' \<and> to_date parse d = Inr day
        \<and> (\<forall>r \<in> set rdata'. crawl_date r = Date day)"
  then show "fetch_data_role_for_dashboard parse w d s = (Inr rdata', s2)"
    using role_wrapper_accepts [of w d s rdata s2 parse rdata' day] by simp
next
  assume a: "fetch_data_tool w d s = (tdata, s3) \<and> tdata \<noteq> []
        \<and> coerce_crawl_date parse tdata = Inr tdata' \<and> to_date parse d = Inr day
        \<and> (\<forall>r \<in> set tdata'. crawl_date r = Date day)"
  show "\<exists>msg. fetch_data_tools_for_dashboard parse w d s = (Inr tdata', log_info msg s3)"
    unfolding fetch_data_tools_for_dashboard_def
    using a by (simp add: validate_or_filter_accepts [of tdata parse tdata' d day])
next
  assume a: "fetch_openings_company w d s = (cdata, s4) \<and> cdata \<noteq> []
        \<and> coerce_crawl_date parse cdata = Inr cdata' \<and> to_date parse d = Inr day
        \<and> (\<forall>r \<in> set cdata'. crawl_date r = Date day)"
  show "\<exists>msg. fetch_openings_company_for_dashboard parse w d s = (Inr cdata', log_info msg s4)"
    unfolding fetch_openings_company_for_dashboard_def
    using a by (simp add: validate_or_filter_accepts [of cdata parse cdata' d day])
next
  assume a: "fetch_taiepi_area_openings w d s = (adata, s5) \<and> adata \<noteq> []
        \<and> coerce_crawl_date parse adata = Inr adata' \<and> to_date parse d = Inr day
        \<and> (\<forall>r \<in> set adata'. crawl_date r = Date day)"
  show "\<exists>msg. fetch_taiepi_area_openings_for_dashboard parse w d s
             = (Inr adata', log_info msg s5)"
    unfolding fetch_taiepi_area_openings_for_dashboard_def
    using a by (simp add: validate_or_filter_accepts [of adata parse adata' d day])
next
  assume "\<forall>r \<in> set data. \<exists>t. crawl_date r = Timestamp day t"
  then show "coerce_crawl_date parse data = Inr (map (\<lambda>r. r\<lparr>crawl_date := Date day\<rparr>) data)"
    by (rule coerce_crawl_date_timestamps)
next
  assume "crawl_date r0 = Str f
        \<and> (\<forall>r \<in> set (r0 # rest). \<exists>str t. crawl_date r = Str str
               \<and> parse f str = Some (day, t))"
  then have "crawl_date r0 = Str f"
    and "\<forall>r \<in> set (r0 # rest). \<exists>str t. crawl_date r = Str str \<and> parse f str = Some (day, t)"
    by blast+
  then show "coerce_crawl_date parse (r0 # rest)
            = Inr (map (\<lambda>r. r\<lparr>crawl_date := Date day\<rparr>) (r0 # rest))"
    by (rule coerce_crawl_date_strings)
next
  assume "fst (fetch_openings_statistics_for_dashboard parse w d s) = Inr df \<and> row \<in> set df"
  then show "crawl_date row = d
          \<or> (\<exists>day' t str. crawl_date row = Timestamp day' t \<and> d = Str str
                 \<and> parse str str = Some (day', t))"
    using statistics_wrapper_accepted_cells [of parse w d s df row] by simp
qed

theorem coercing_wrappers_compare_dates_witness:
  "fst (fetch_data_role (sample_warehouse [Timestamp (2024, 4, 8) 37800, Timestamp (2024, 4, 8) 0])
          (Str ''2024-04-08'') new_session)
     = dated (cols unknown_role_row) [Timestamp (2024, 4, 8) 37800, Timestamp (2024, 4, 8) 0]
   \<and> to_date iso_timestamp (Str ''2024-04-08'') = Inr (2024, 4, 8)
   \<and> fst (fetch_data_role_for_dashboard iso_timestamp
            (sample_warehouse [Timestamp (2024, 4, 8) 37800, Timestamp (2024, 4, 8) 0])
            (Str ''2024-04-08'') new_session)
       = Inr (dated (cols unknown_role_row) [Date (2024, 4, 8), Date (2024, 4, 8)])
   \<and> fst (fetch_data_tools_for_dashboard iso_timestamp
            (sample_warehouse [Timestamp (2024, 4, 8) 37800, Timestamp (2024, 4, 8) 0])
            (Str ''2024-04-08'') new_session)
       = Inr (dated python_tool [Date (2024, 4, 8), Date (2024, 4, 8)])
   \<and> fst (fetch_openings_company_for_dashboard iso_timestamp
            (sample_warehouse [Timestamp (2024, 4, 8) 37800, Timestamp (2024, 4, 8) 0])
            (Str ''2024-04-08'') new_session)
       = Inr (dated (acme\<lparr>company_name := ''Acme''\<rparr>) [Date (2024, 4, 8), Date (2024, 4, 8)])
   \<and> fst (fetch_taiepi_area_openings_for_dashboard iso_timestamp
            (sample_warehouse [Timestamp (2024, 4, 8) 37800, Timestamp (2024, 4, 8) 0])
            (Str ''2024-04-08'') new_session)
       = Inr (dated xinyi [Date (2024, 4, 8), Date (2024, 4, 8)])
   \<and> fst (fetch_openings_statistics_for_dashboard iso_timestamp
            (sample_warehouse [Timestamp (2024, 4, 8) 0]) (Str ''2024-04-08'') new_session)
       = Inr [april_statistics_row (Timestamp (2024, 4, 8) 0)]
   \<and> iso_timestamp ''2024-04-08'' ''2024-04-08'' = Some ((2024, 4, 8), 0)
   \<and> coerce_crawl_date iso_timestamp
         (dated python_tool [Str ''2024-04-08 10:30:00'', Str ''2024-04-08 00:00:00''])
       = Inr (dated python_tool [Date (2024, 4, 8), Date (2024, 4, 8)])
   \<and> fst (fetch_data_tools_for_dashboard iso_timestamp
            (sample_warehouse [Str ''2024-04-08 10:30:00'', Str ''2024-04-08 00:00:00''])
            (Str ''2024-04-08'') new_session)
       = Inr (dated python_tool [Date (2024, 4, 8), Date (2024, 4, 8)])"
proof -
  let ?s = new_session
  let ?w = "sample_warehouse [Timestamp (2024, 4, 8) 37800, Timestamp (2024, 4, 8) 0]"
  let ?m = "sample_warehouse [Timestamp (2024, 4, 8) 0]"
  let ?v = "sample_warehouse [Str ''2024-04-08 10:30:00'', Str ''2024-04-08 00:00:00'']"
  let ?d = "Str ''2024-04-08''"
  show ?thesis
    using coercing_wrappers_compare_dates [where w = ?w and d = ?d and s = ?s
        and parse = iso_timestamp and day = "(2024, 4, 8)"
        and rdata = "fst (fetch_data_role ?w ?d ?s)"
        and ?s2.0 = "snd (fetch_data_role ?w ?d ?s)"
        and rdata' = "projr (coerce_crawl_date iso_timestamp (fst (fetch_data_role ?w ?d ?s)))"
        and tdata = "fst (fetch_data_tool ?w ?d ?s)"
        and ?s3.0 = "snd (fetch_data_tool ?w ?d ?s)"
        and tdata' = "projr (coerce_crawl_date iso_timestamp (fst (fetch_data_tool ?w ?d ?s)))"
        and cdata = "fst (fetch_openings_company ?w ?d ?s)"
        and ?s4.0 = "snd (fetch_openings_company ?w ?d ?s)"
        and cdata' =
          "projr (coerce_crawl_date iso_timestamp (fst (fetch_openings_company ?w ?d ?s)))"
        and adata = "fst (fetch_taiepi_area_openings ?w ?d ?s)"
        and ?s5.0 = "snd (fetch_taiepi_area_openings ?w ?d ?s)"
        and adata' =
          "projr (coerce_crawl_date iso_timestamp (fst (fetch_taiepi_area_openings ?w ?d ?s)))"
        and data = "fst (fetch_data_role ?w ?d ?s)"]
      coercing_wrappers_compare_dates [where w = ?m and d = ?d and s = ?s
        and parse = iso_timestamp
        and df = "[april_statistics_row (Timestamp (2024, 4, 8) 0)]"
        and row = "april_statistics_row (Timestamp (2024, 4, 8) 0)"]
      coercing_wrappers_compare_dates [where w = ?v and d = ?d and s = ?s
        and parse = iso_timestamp and day = "(2024, 4, 8)"
        and tdata = "fst (fetch_data_tool ?v ?d ?s)"
        and ?s3.0 = "snd (fetch_data_tool ?v ?d ?s)"
        and tdata' = "dated python_tool [Date (2024, 4, 8), Date (2024, 4, 8)]"
        and ?r0.0 = "\<lparr>cols = python_tool, crawl_date = Str ''2024-04-08 10:30:00''\<rparr>"
        and f = "''2024-04-08 10:30:00''"
        and rest = "[\<lparr>cols = python_tool, crawl_date = Str ''2024-04-08 00:00:00''\<rparr>]"]
    by (simp add: sample_defs fetcher_defs wrapper_defs iso_samples adjust_company_name_def
        split_underscore_first_def iso_timestamp_april_8_times)
qed

section \<open>Properties of \<open>load_home_page_data\<close>\<close>

lemma to_datetime_error: "to_datetime parse v = Inl e \<Longrightarrow> e = DateParseError"
  by (cases v) (auto split: option.splits)

lemma to_date_error: "to_date parse v = Inl e \<Longrightarrow> e = DateParseError"
  by (auto simp: to_date_def split: sum.splits dest: to_datetime_error)

lemma to_date_in_error: "to_date_in parse fmt v = Inl e \<Longrightarrow> e = DateParseError"
  by (cases "(parse, fmt, v)" rule: to_date_in.cases)
     (auto dest: to_date_error split: option.splits)

lemma coerce_cells_error: "coerce_cells parse fmt data = Inl e \<Longrightarrow> e = DateParseError"
  by (induction data) (auto dest: to_date_in_error split: sum.splits)

lemma coerce_crawl_date_error: "coerce_crawl_date parse data = Inl e \<Longrightarrow> e = DateParseError"
  by (auto simp: coerce_crawl_date_def dest: coerce_cells_error)

lemma py_max_error: "py_max a b = Inl e \<Longrightarrow> e = TypeError"
  by (cases a; cases b) auto

lemma column_max_error: "column_max x ys = Inl e \<Longrightarrow> e = TypeError"
  by (induction ys arbitrary: x) (auto split: sum.splits dest: py_max_error)

lemma execute_query_open:
  "execute_query q answer s = (r, s1) \<Longrightarrow> connection_open s1 = connection_open s"
  by (auto simp: execute_query_def Let_def log_error_def split: sum.splits)

lemma fetch_frame_open:
  "fetch_frame q answer build a b c s = (df, s1) \<Longrightarrow> connection_open s1 = connection_open s"
  by (auto simp: fetch_frame_def log_info_def log_error_def
      split: prod.splits option.splits list.splits sum.splits dest: execute_query_open)

lemma get_newest_crawl_date_open_eq:
  "get_newest_crawl_date w s = (n, s1) \<Longrightarrow> connection_open s1 = connection_open s"
  using get_newest_crawl_date_open [of w s] by simp

lemma statistics_wrapper_outcome:
  assumes "fetch_openings_statistics_for_dashboard parse w d s = (r, s1)"
  shows "connection_open s1 = connection_open s \<and> (\<exists>df. r = Inr df)"
proof -
  obtain data s0 where f: "fetch_openings_statistics_metrics w d s = (data, s0)"
    by (cases "fetch_openings_statistics_metrics w d s")
  then have "connection_open s0 = connection_open s"
    unfolding fetch_openings_statistics_metrics_def by (rule fetch_frame_open)
  then show ?thesis
    using assms f
    by (auto simp: fetch_openings_statistics_for_dashboard_def log_info_def log_error_def
        split: if_splits)
qed

lemma history_wrapper_outcome:
  assumes "fetch_historical_total_openings_for_dashboard parse w s = (r, s1)"
  shows "connection_open s1 = connection_open s
         \<and> (\<forall>e. r = Inl e \<longrightarrow> e = DateParseError \<or> e = TypeError)"
proof -
  obtain data s0 where f: "fetch_openings_history w s = (data, s0)"
    by (cases "fetch_openings_history w s")
  then have o: "connection_open s0 = connection_open s"
    unfolding fetch_openings_history_def by (rule fetch_frame_open)
  obtain n s2 where g: "get_newest_crawl_date w s0 = (n, s2)"
    by (cases "get_newest_crawl_date w s0")
  then have o2: "connection_open s2 = connection_open s0"
    by (rule get_newest_crawl_date_open_eq)
  show ?thesis
    using assms f g o o2
    by (auto simp: fetch_historical_total_openings_for_dashboard_def log_info_def log_error_def
        split: list.splits sum.splits option.splits if_splits
        dest: column_max_error to_datetime_error)
qed

lemma role_wrapper_outcome:
  assumes "fetch_data_role_for_dashboard parse w d s = (r, s1)"
  shows "connection_open s1 = connection_open s \<and> (\<forall>e. r = Inl e \<longrightarrow> e = DateParseError)"
proof -
  obtain data s0 where f: "fetch_data_role w d s = (data, s0)"
    by (cases "fetch_data_role w d s")
  then have "connection_open s0 = connection_open s"
    unfolding fetch_data_role_def by (rule fetch_frame_open)
  then show ?thesis
    using assms f
    by (auto simp: fetch_data_role_for_dashboard_def log_info_def log_error_def
        split: sum.splits if_splits dest: coerce_crawl_date_error to_date_error)
qed

lemma validate_or_filter_outcome:
  assumes "validate_or_filter parse a b c d (data, s0) = (r, s1)"
  shows "connection_open s1 = connection_open s0 \<and> (\<forall>e. r = Inl e \<longrightarrow> e = DateParseError)"
  using assms
  by (auto simp: validate_or_filter_def log_info_def log_error_def
      split: sum.splits if_splits dest: coerce_crawl_date_error to_date_error)

lemma tools_wrapper_outcome:
  assumes "fetch_data_tools_for_dashboard parse w d s = (r, s1)"
  shows "connection_open s1 = connection_open s \<and> (\<forall>e. r = Inl e \<longrightarrow> e = DateParseError)"
proof -
  obtain data s0 where f: "fetch_data_tool w d s = (data, s0)"
    by (cases "fetch_data_tool w d s")
  then have "connection_open s0 = connection_open s"
    unfolding fetch_data_tool_def by (rule fetch_frame_open)
  then show ?thesis
    using assms f validate_or_filter_outcome
    unfolding fetch_data_tools_for_dashboard_def by metis
qed

lemma company_wrapper_outcome:
  assumes "fetch_openings_company_for_dashboard parse w d s = (r, s1)"
  shows "connection_open s1 = connection_open s \<and> (\<forall>e. r = Inl e \<longrightarrow> e = DateParseError)"
proof -
  obtain data s0 where f: "fetch_openings_company w d s = (data, s0)"
    by (cases "fetch_openings_company w d s")
  then have "connection_open s0 = connection_open s"
    unfolding fetch_openings_company_def by (rule fetch_frame_open)
  then show ?thesis
    using assms f validate_or_filter_outcome
    unfolding fetch_openings_company_for_dashboard_def by metis
qed

lemma taipei_wrapper_outcome:
  assumes "fetch_taiepi_area_openings_for_dashboard parse w d s = (r, s1)"
  shows "connection_open s1 = connection_open s \<and> (\<forall>e. r = Inl e \<longrightarrow> e = DateParseError)"
proof -
  obtain data s0 where f: "fetch_taiepi_area_openings w d s = (data, s0)"
    by (cases "fetch_taiepi_area_openings w d s")
  then have "connection_open s0 = connection_open s"
    unfolding fetch_taiepi_area_openings_def by (rule fetch_frame_open)
  then show ?thesis
    using assms f validate_or_filter_outcome
    unfolding fetch_taiepi_area_openings_for_dashboard_def by metis
qed

lemma fetch_all_metrics_outcome:
  assumes "fetch_all_metrics parse w d s = (r, s')"
  shows "connection_open s' = connection_open s
         \<and> (\<forall>e. r = Inl e \<longrightarrow> e = DateParseError \<or> e = TypeError)
         \<and> (\<forall>l. r = Inr l \<longrightarrow> (\<exists>v. return_locals l = Inr v))"
proof -
  obtain r1 s1 where w1: "fetch_openings_statistics_for_dashboard parse w d s = (r1, s1)"
    by (cases "fetch_openings_statistics_for_dashboard parse w d s")
  obtain r2 s2 where w2: "fetch_historical_total_openings_for_dashboard parse w s1 = (r2, s2)"
    by (cases "fetch_historical_total_openings_for_dashboard parse w s1")
  obtain r3 s3 where w3: "fetch_data_role_for_dashboard parse w d s2 = (r3, s3)"
    by (cases "fetch_data_role_for_dashboard parse w d s2")
  obtain r4 s4 where w4: "fetch_data_tools_for_dashboard parse w d s3 = (r4, s4)"
    by (cases "fetch_data_tools_for_dashboard parse w d s3")
  obtain r5 s5 where w5: "fetch_openings_company_for_dashboard parse w d s4 = (r5, s5)"
    by (cases "fetch_openings_company_for_dashboard parse w d s4")
  obtain r6 s6 where w6: "fetch_taiepi_area_openings_for_dashboard parse w d s5 = (r6, s6)"
    by (cases "fetch_taiepi_area_openings_for_dashboard parse w d s5")
  note o1 = statistics_wrapper_outcome [OF w1]
  note o2 = history_wrapper_outcome [OF w2]
  note o3 = role_wrapper_outcome [OF w3]
  note o4 = tools_wrapper_outcome [OF w4]
  note o5 = company_wrapper_outcome [OF w5]
  note o6 = taipei_wrapper_outcome [OF w6]
  from o1 obtain a where r1: "r1 = Inr a" by blast
  show ?thesis
  proof (cases r2)
    case (Inl e)
    then show ?thesis
      using assms o1 o2 by (auto simp: fetch_all_metrics_def w1 w2 r1)
  next
    case b: (Inr b)
    show ?thesis
    proof (cases r3)
      case (Inl e)
      then show ?thesis
        using assms o1 o2 o3 by (auto simp: fetch_all_metrics_def w1 w2 w3 r1 b)
    next
      case c: (Inr c)
      show ?thesis
      proof (cases r4)
        case (Inl e)
        then show ?thesis
          using assms o1 o2 o3 o4 by (auto simp: fetch_all_metrics_def w1 w2 w3 w4 r1 b c)
      next
        case t: (Inr t)
        show ?thesis
        proof (cases r5)
          case (Inl e)
          then show ?thesis
            using assms o1 o2 o3 o4 o5
            by (auto simp: fetch_all_metrics_def w1 w2 w3 w4 w5 r1 b c t)
        next
          case c5: (Inr c5)
          show ?thesis
          proof (cases r6)
            case (Inl e)
            then show ?thesis
              using assms o1 o2 o3 o4 o5 o6
              by (auto simp: fetch_all_metrics_def w1 w2 w3 w4 w5 w6 r1 b c t c5)
          next
            case (Inr g)
            then show ?thesis
              using assms o1 o2 o3 o4 o5 o6
              by (auto simp: fetch_all_metrics_def w1 w2 w3 w4 w5 w6 r1 b c t c5
                  return_locals_def)
          qed
        qed
      qed
    qed
  qed
qed

lemma log_info_open: "connection_open (log_info msg s) = connection_open s"
  by (simp add: log_info_def)

text \<open>
  Claim C9 (the connection is closed), as amended. Whenever \<open>load_home_page_data\<close> has
  opened a connection, that connection is closed when the function terminates exactly
  when no fetch wrapper raised: on a normal return, and on the path without a crawl date,
  which closes the connection before its \<open>return\<close> raises \<open>UnboundLocalError\<close>. An
  exception raised by a wrapper leaves the function before the \<open>close()\<close>.
\<close>

theorem connection_closed_unless_fetch_raises:
  assumes "load_home_page_data parse w = (res, Some s')"
  shows "\<not> connection_open s' \<longleftrightarrow> (\<exists>v. res = Inr v) \<or> res = Inl UnboundLocalError"
proof -
  from assms obtain s0 where c: "connect_to_database w = Inr s0"
    by (auto simp: load_home_page_data_def split: sum.splits)
  then have open0: "connection_open s0"
    using connect_to_database_queries by blast
  obtain n s1 where g: "get_newest_crawl_date w s0 = (n, s1)"
    by (cases "get_newest_crawl_date w s0")
  then have open1: "connection_open s1"
    using get_newest_crawl_date_open_eq open0 by blast
  show ?thesis
  proof (cases "if truthy n then n else None")
    case None
    then show ?thesis
      using assms
      by (auto simp: load_home_page_data_def c g return_locals_def unassigned_def
          close_connection_def log_info_def)
  next
    case (Some d)
    obtain r s2 where f:
      "fetch_all_metrics parse w d (log_info ''Fetching data for the date'' s1) = (r, s2)"
      by (cases "fetch_all_metrics parse w d (log_info ''Fetching data for the date'' s1)")
    note out = fetch_all_metrics_outcome [OF f]
    then have open2: "connection_open s2"
      using open1 by (simp add: log_info_open)
    show ?thesis
    proof (cases r)
      case (Inl e)
      then have "res = Inl e" and "s' = s2"
        using assms Some by (auto simp: load_home_page_data_def c g f)
      moreover have "e = DateParseError \<or> e = TypeError"
        using out Inl by blast
      ultimately show ?thesis using open2 by auto
    next
      case (Inr l)
      then obtain v where "return_locals l = Inr v"
        using out by blast
      then have "res = Inr v" and s': "s' = close_connection s2"
        using assms Some Inr by (auto simp: load_home_page_data_def c g f)
      then have "\<exists>v. res = Inr v" by blast
      moreover have "\<not> connection_open s'"
        by (simp add: s' close_connection_def log_info_def)
      ultimately show ?thesis by blast
    qed
  qed
qed

theorem connection_closed_unless_fetch_raises_witness:
  "fst (load_home_page_data iso_timestamp fresh) = Inr ([], [], [], [], [], [])
   \<and> map_option connection_open (snd (load_home_page_data iso_timestamp fresh)) = Some False"
  using connection_closed_unless_fetch_raises [of iso_timestamp fresh
      "fst (load_home_page_data iso_timestamp fresh)"
      "the (snd (load_home_page_data iso_timestamp fresh))"]
  by (simp add: load_home_page_data_def connect_to_database_def fetch_all_metrics_def
      return_locals_def close_connection_def sample_defs fetcher_defs wrapper_defs iso_samples)

text \<open>
  Claim C9 as stated says that the connection is closed also when a fetch raises. On a
  warehouse whose data-role rows carry the \<open>crawl_date\<close> \<open>unknown\<close>, the data-role
  wrapper raises, \<open>load_home_page_data\<close> ends with that exception, and the connection
  is still open.
\<close>

theorem connection_left_open_when_wrapper_raises:
  "fst (load_home_page_data iso_timestamp dirty_roles) = Inl DateParseError
   \<and> map_option connection_open (snd (load_home_page_data iso_timestamp dirty_roles))
       = Some True"
  by (simp add: load_home_page_data_def connect_to_database_def new_session_def
      get_newest_crawl_date_def fetch_all_metrics_def coerce_crawl_date_def
      fetch_openings_statistics_for_dashboard_def fetch_openings_statistics_metrics_def
      fetch_historical_total_openings_for_dashboard_def fetch_openings_history_def
      fetch_data_role_for_dashboard_def fetch_data_role_def fetch_frame_def
      execute_query_def dirty_roles_def no_rows_def unknown_role_row_def to_date_def
      iso_timestamp_unknown log_info_def)

section \<open>Properties of the history query\<close>

lemma history_query_decompose:
  fixes metrics :: "(real option, 'c::linorder) row list"
  defines "ys \<equiv> sort_key crawl_date metrics"
  defines "k \<equiv> length metrics - 12"
  shows "mset (history_query metrics) = mset (drop k ys)"
    and "mset metrics = mset (take k ys) + mset (history_query metrics)"
    and "sorted (map crawl_date (history_query metrics))"
    and "length (history_query metrics) = min 12 (length metrics)"
proof -
  have t: "take 12 (rev ys) = rev (drop k ys)"
    by (simp add: take_rev ys_def k_def)
  show m: "mset (history_query metrics) = mset (drop k ys)"
    unfolding history_query_def order_by_asc_def order_by_desc_def
    by (simp add: t flip: ys_def)
  have "mset metrics = mset ys" by (simp add: ys_def)
  also have "\<dots> = mset (take k ys) + mset (drop k ys)"
    by (simp flip: mset_append)
  finally show "mset metrics = mset (take k ys) + mset (history_query metrics)"
    by (simp add: m)
  show "sorted (map crawl_date (history_query metrics))"
    by (simp add: history_query_def order_by_asc_def)
  have "length (history_query metrics) = length (drop k ys)"
    using m by (rule mset_eq_length)
  then show "length (history_query metrics) = min 12 (length metrics)"
    by (simp add: ys_def k_def)
qed

lemma history_query_dominates:
  fixes metrics :: "(real option, 'c::linorder) row list"
  assumes "r \<in># mset metrics - mset (history_query metrics)"
    and "kept \<in> set (history_query metrics)"
  shows "crawl_date r \<le> crawl_date kept"
    and "distinct (map crawl_date metrics) \<Longrightarrow> crawl_date r < crawl_date kept"
proof -
  let ?ys = "sort_key crawl_date metrics"
  let ?k = "length metrics - 12"
  have r: "r \<in> set (take ?k ?ys)"
    using assms(1) history_query_decompose(2) [of metrics] by simp
  have "set (history_query metrics) = set (drop ?k ?ys)"
    using history_query_decompose(1) [of metrics] by (rule mset_eq_setD)
  then have kept: "kept \<in> set (drop ?k ?ys)"
    using assms(2) by simp
  have split: "map crawl_date (take ?k ?ys) @ map crawl_date (drop ?k ?ys) = map crawl_date ?ys"
    by (simp flip: map_append)
  have "sorted (map crawl_date (take ?k ?ys) @ map crawl_date (drop ?k ?ys))"
    unfolding split by simp
  then show le: "crawl_date r \<le> crawl_date kept"
    using r kept by (auto simp: sorted_append)
  assume "distinct (map crawl_date metrics)"
  moreover have "mset (map crawl_date ?ys) = mset (map crawl_date metrics)"
    by simp
  ultimately have "distinct (map crawl_date ?ys)"
    using mset_eq_imp_distinct_iff by blast
  then have "distinct (map crawl_date (take ?k ?ys) @ map crawl_date (drop ?k ?ys))"
    unfolding split .
  then have "crawl_date r \<noteq> crawl_date kept"
    using r kept by auto
  with le show "crawl_date r < crawl_date kept" by simp
qed

lemma history_query_strictly_ascending:
  fixes metrics :: "(real option, 'c::linorder) row list"
  assumes "distinct (map crawl_date metrics)"
  shows "sorted_wrt (<) (map crawl_date (history_query metrics))"
proof -
  let ?ys = "sort_key crawl_date metrics"
  let ?k = "length metrics - 12"
  have "mset (map crawl_date ?ys) = mset (map crawl_date metrics)"
    by simp
  then have "distinct (map crawl_date ?ys)"
    using assms mset_eq_imp_distinct_iff by blast
  then have "distinct (drop ?k (map crawl_date ?ys))"
    by (rule distinct_drop)
  moreover have "mset (map crawl_date (history_query metrics))
        = mset (drop ?k (map crawl_date ?ys))"
    using history_query_decompose(1) [of metrics] by (simp add: drop_map)
  ultimately have "distinct (map crawl_date (history_query metrics))"
    using mset_eq_imp_distinct_iff by blast
  then show ?thesis
    using history_query_decompose(3) [of metrics] by (simp add: strict_sorted_iff)
qed

lemma fetch_frame_identity:
  "fst (fetch_frame q (Inr rows) Inr a b c s) = rows"
  by (cases rows) (simp_all add: fetch_frame_def execute_query_def)

text \<open>
  Claim C4 (historical openings series), as amended. When the cursor answers the history
  query on the metrics table, \<open>fetch_openings_history\<close> returns that answer: 12 rows of
  the table (all rows when it has fewer than 12), in ascending order of \<open>crawl_date\<close>,
  and no row left out has a later \<open>crawl_date\<close> than a returned row. When the crawl
  dates of the table are distinct, the order is strictly ascending and every row left out
  is older than every returned row, so the result is exactly the 12 most recent crawl
  dates.
\<close>

theorem fetch_openings_history_most_recent:
  fixes w :: "'c::linorder warehouse"
  assumes "history_answer w = Inr (history_query metrics)"
  shows "fst (fetch_openings_history w s) = history_query metrics
     \<and> length (history_query metrics) = min 12 (length metrics)
     \<and> mset (history_query metrics) \<subseteq># mset metrics
     \<and> sorted (map crawl_date (history_query metrics))
     \<and> (\<forall>r \<in># mset metrics - mset (history_query metrics).
          \<forall>kept \<in> set (history_query metrics). crawl_date r \<le> crawl_date kept)
     \<and> (distinct (map crawl_date metrics) \<longrightarrow>
          sorted_wrt (<) (map crawl_date (history_query metrics))
          \<and> (\<forall>r \<in># mset metrics - mset (history_query metrics).
               \<forall>kept \<in> set (history_query metrics). crawl_date r < crawl_date kept))"
proof -
  have "fst (fetch_openings_history w s) = history_query metrics"
    by (simp add: fetch_openings_history_def assms fetch_frame_identity)
  moreover have "mset (history_query metrics) \<subseteq># mset metrics"
    using history_query_decompose(2) [of metrics] by (metis mset_subset_eq_add_right)
  moreover note history_query_decompose(3,4) [of metrics]
  moreover have "\<forall>r \<in># mset metrics - mset (history_query metrics).
          \<forall>kept \<in> set (history_query metrics). crawl_date r \<le> crawl_date kept"
    using history_query_dominates(1) by blast
  moreover have "distinct (map crawl_date metrics) \<longrightarrow>
          sorted_wrt (<) (map crawl_date (history_query metrics))
          \<and> (\<forall>r \<in># mset metrics - mset (history_query metrics).
               \<forall>kept \<in> set (history_query metrics). crawl_date r < crawl_date kept)"
    using history_query_dominates(2) history_query_strictly_ascending by blast
  ultimately show ?thesis by blast
qed

lemma weekly_metrics_history:
  "history_query weekly_metrics =
     [\<lparr>cols = Some 103, crawl_date = (2024, 1, 22)\<rparr>,
      \<lparr>cols = Some 104, crawl_date = (2024, 1, 29)\<rparr>,
      \<lparr>cols = Some 105, crawl_date = (2024, 2, 5)\<rparr>,
      \<lparr>cols = Some 106, crawl_date = (2024, 2, 12)\<rparr>,
      \<lparr>cols = Some 107, crawl_date = (2024, 2, 19)\<rparr>,
      \<lparr>cols = Some 108, crawl_date = (2024, 2, 26)\<rparr>,
      \<lparr>cols = Some 109, crawl_date = (2024, 3, 4)\<rparr>,
      \<lparr>cols = Some 110, crawl_date = (2024, 3, 11)\<rparr>,
      \<lparr>cols = Some 111, crawl_date = (2024, 3, 18)\<rparr>,
      \<lparr>cols = Some 112, crawl_date = (2024, 3, 25)\<rparr>,
      \<lparr>cols = Some 113, crawl_date = (2024, 4, 1)\<rparr>,
      \<lparr>cols = Some 120, crawl_date = (2024, 4, 8)\<rparr>]"
  by (simp add: history_query_def order_by_asc_def order_by_desc_def weekly_metrics_def)

theorem fetch_openings_history_most_recent_witness:
  "length weekly_metrics = 15
   \<and> distinct (map crawl_date weekly_metrics)
   \<and> history_answer (no_rows\<lparr>history_answer := Inr (history_query weekly_metrics)\<rparr>)
       = Inr (history_query weekly_metrics)
   \<and> map crawl_date
        (fst (fetch_openings_history
                (no_rows\<lparr>history_answer := Inr (history_query weekly_metrics)\<rparr>) new_session))
       = [(2024, 1, 22), (2024, 1, 29), (2024, 2, 5), (2024, 2, 12), (2024, 2, 19),
          (2024, 2, 26), (2024, 3, 4), (2024, 3, 11), (2024, 3, 18), (2024, 3, 25),
          (2024, 4, 1), (2024, 4, 8)]
   \<and> sorted_wrt (<) (map crawl_date (history_query weekly_metrics))"
proof -
  have a: "history_answer (no_rows\<lparr>history_answer := Inr (history_query weekly_metrics)\<rparr>)
       = Inr (history_query weekly_metrics)"
    by (simp add: no_rows_def)
  have d: "distinct (map crawl_date weekly_metrics)"
    by (simp add: weekly_metrics_def)
  have l: "length weekly_metrics = 15"
    by (simp add: weekly_metrics_def)
  have "sorted_wrt (<) (map crawl_date (history_query weekly_metrics))"
    and "fst (fetch_openings_history
                (no_rows\<lparr>history_answer := Inr (history_query weekly_metrics)\<rparr>) new_session)
          = history_query weekly_metrics"
    using fetch_openings_history_most_recent [OF a, of new_session] d by blast+
  then show ?thesis
    using a d l by (simp add: weekly_metrics_history)
qed

text \<open>
  Claim C4 as stated counts distinct markers. The query counts rows: on thirteen rows of
  twelve crawl dates, the newest date twice, the series holds twelve rows of eleven
  crawl dates, and the oldest of the twelve dates, 22 January, is left out.
\<close>

theorem history_counts_rows_not_markers:
  "length repeated_metrics = 13
   \<and> card (set (map crawl_date repeated_metrics)) = 12
   \<and> (2024, 1, 22) \<in> set (map crawl_date repeated_metrics)
   \<and> map crawl_date
        (fst (fetch_openings_history
                (no_rows\<lparr>history_answer := Inr (history_query repeated_metrics)\<rparr>) new_session))
       = [(2024, 1, 29), (2024, 2, 5), (2024, 2, 12), (2024, 2, 19), (2024, 2, 26),
          (2024, 3, 4), (2024, 3, 11), (2024, 3, 18), (2024, 3, 25), (2024, 4, 1),
          (2024, 4, 8), (2024, 4, 8)]
   \<and> card (set (map crawl_date (history_query repeated_metrics))) = 11
   \<and> (2024, 1, 22) \<notin> set (map crawl_date (history_query repeated_metrics))"
  by (simp add: history_query_def order_by_asc_def order_by_desc_def repeated_metrics_def
      fetch_openings_history_def fetch_frame_def execute_query_def no_rows_def)

section \<open>Properties of the chart reductions\<close>

lemma groupby_sum_keys:
  "map fst (groupby_sum kvs) = sort (remdups (map fst kvs))"
  by (simp add: groupby_sum_def comp_def)

lemma groupby_sum_distinct: "distinct (map fst (groupby_sum kvs))"
  by (simp add: groupby_sum_keys)

lemma groupby_sum_key_set: "fst ` set (groupby_sum kvs) = fst ` set kvs"
proof -
  have "set (map fst (groupby_sum kvs)) = set (map fst kvs)"
    by (simp add: groupby_sum_keys)
  then show ?thesis by simp
qed

lemma groupby_sum_length: "length (groupby_sum kvs) = card (fst ` set kvs)"
proof -
  have "length (groupby_sum kvs) = length (map fst (groupby_sum kvs))" by simp
  also have "\<dots> = length (remdups (map fst kvs))"
    by (simp add: groupby_sum_keys)
  also have "\<dots> = card (set (map fst kvs))"
    by (simp add: length_remdups_card_conv)
  finally show ?thesis by simp
qed

lemma groupby_sum_member:
  "(k, v) \<in> set (groupby_sum kvs) \<longleftrightarrow> k \<in> fst ` set kvs \<and> v = key_total kvs k"
  by (auto simp: groupby_sum_def key_total_def)

lemma sum_list_single_key:
  "distinct ks \<Longrightarrow> a \<in> set ks \<Longrightarrow>
   sum_list (map (\<lambda>k. if a = k then (b::64 word) else 0) (filter P ks))
     = (if P a then b else 0)"
proof (induction ks)
  case Nil
  then show ?case by simp
next
  case (Cons k ks)
  show ?case
  proof (cases "a = k")
    case True
    then have "a \<notin> set ks" using Cons.prems by simp
    then have "sum_list (map (\<lambda>k. if a = k then b else 0) (filter P ks)) = 0"
      by (induction ks) auto
    then show ?thesis using True by simp
  next
    case False
    then show ?thesis using Cons by auto
  qed
qed

lemma regroup_sum:
  "distinct ks \<Longrightarrow> fst ` set kvs \<subseteq> set ks \<Longrightarrow>
   sum_list (map (key_total kvs) (filter P ks))
     = sum_list (map snd (filter (\<lambda>kv. P (fst kv)) kvs))"
proof (induction kvs)
  case Nil
  then show ?case by (simp add: key_total_def)
next
  case (Cons kv kvs)
  obtain a b where kv: "kv = (a, b)" by (cases kv)
  have a: "a \<in> set ks" using Cons.prems(2) kv by simp
  have "key_total (kv # kvs) = (\<lambda>k. (if a = k then b else 0) + key_total kvs k)"
    by (auto simp: key_total_def kv fun_eq_iff)
  then have "sum_list (map (key_total (kv # kvs)) (filter P ks))
      = sum_list (map (\<lambda>k. if a = k then b else 0) (filter P ks))
        + sum_list (map (key_total kvs) (filter P ks))"
    by (simp add: sum_list_addf)
  also have "\<dots> = (if P a then b else 0)
        + sum_list (map snd (filter (\<lambda>kv. P (fst kv)) kvs))"
    using Cons.IH Cons.prems a by (simp add: sum_list_single_key)
  finally show ?case by (simp add: kv)
qed

lemma groupby_sum_filter_total:
  "sum_list (map snd (filter (\<lambda>kv. P (fst kv)) (groupby_sum kvs)))
     = sum_list (map snd (filter (\<lambda>kv. P (fst kv)) kvs))"
proof -
  let ?ks = "sort (remdups (map fst kvs))"
  have "filter (\<lambda>kv. P (fst kv)) (groupby_sum kvs)
          = map (\<lambda>k. (k, key_total kvs k)) (filter P ?ks)"
    by (simp add: groupby_sum_def key_total_def filter_map comp_def)
  then have "sum_list (map snd (filter (\<lambda>kv. P (fst kv)) (groupby_sum kvs)))
          = sum_list (map (key_total kvs) (filter P ?ks))"
    by (simp add: comp_def)
  also have "\<dots> = sum_list (map snd (filter (\<lambda>kv. P (fst kv)) kvs))"
    by (rule regroup_sum) auto
  finally show ?thesis .
qed

lemma nlargest_split:
  fixes kvs :: "('k \<times> 64 word) list"
  defines "zs \<equiv> sort_key (\<lambda>kv. - sint (snd kv)) kvs"
  shows "nlargest n kvs = take n zs"
    and "mset kvs = mset (nlargest n kvs) + mset (drop n zs)"
    and "set kvs = set (nlargest n kvs) \<union> set (drop n zs)"
    and "length (nlargest n kvs) = min n (length kvs)"
    and "\<forall>x \<in> set (nlargest n kvs). \<forall>y \<in> set (drop n zs). sint (snd y) \<le> sint (snd x)"
proof -
  show t: "nlargest n kvs = take n zs"
    by (simp add: nlargest_def zs_def)
  have "mset kvs = mset zs" by (simp add: zs_def)
  also have "\<dots> = mset (take n zs) + mset (drop n zs)"
    by (simp flip: mset_append)
  finally show "mset kvs = mset (nlargest n kvs) + mset (drop n zs)"
    by (simp add: t)
  have "set kvs = set zs"
    by (simp add: zs_def)
  also have "\<dots> = set (take n zs) \<union> set (drop n zs)"
    by (simp flip: set_append)
  finally show "set kvs = set (nlargest n kvs) \<union> set (drop n zs)"
    by (simp add: t)
  show "length (nlargest n kvs) = min n (length kvs)"
    by (simp add: t zs_def min.commute)
  have "sorted (map (\<lambda>kv. - sint (snd kv)) (take n zs @ drop n zs))"
    by (simp add: zs_def)
  then have "\<forall>x \<in> set (take n zs). \<forall>y \<in> set (drop n zs). - sint (snd x) \<le> - sint (snd y)"
    unfolding map_append sorted_append by auto
  then show "\<forall>x \<in> set (nlargest n kvs). \<forall>y \<in> set (drop n zs). sint (snd y) \<le> sint (snd x)"
    by (simp add: t)
qed

lemma nlargest_subset: "set (nlargest n kvs) \<subseteq> set kvs"
  using nlargest_split(3) [of kvs n] by auto

lemma nlargest_distinct:
  "distinct (map fst kvs) \<Longrightarrow> distinct (map fst (nlargest n kvs))"
proof -
  assume "distinct (map fst kvs)"
  moreover have "mset (map fst (sort_key (\<lambda>kv. - sint (snd kv)) kvs)) = mset (map fst kvs)"
    by simp
  ultimately have "distinct (map fst (sort_key (\<lambda>kv. - sint (snd kv)) kvs))"
    using mset_eq_imp_distinct_iff by blast
  then have "distinct (take n (map fst (sort_key (\<lambda>kv. - sint (snd kv)) kvs)))"
    by (rule distinct_take)
  then show ?thesis by (simp add: nlargest_def take_map)
qed

lemma nlargest_dominates:
  assumes "distinct (map fst kvs)"
    and "(k, v) \<in> set (nlargest n kvs)"
    and "(t, u) \<in> set kvs" and "t \<notin> fst ` set (nlargest n kvs)"
  shows "sint u \<le> sint v"
proof -
  let ?zs = "sort_key (\<lambda>kv. - sint (snd kv)) kvs"
  have "(t, u) \<notin> set (nlargest n kvs)"
    using assms(4) by force
  then have "(t, u) \<in> set (drop n ?zs)"
    using assms(3) nlargest_split(3) [of kvs n] by auto
  then show ?thesis
    using nlargest_split(5) [of n kvs] assms(2) by force
qed

lemma top_n_of_totals:
  fixes L :: "('k \<times> 64 word) list"
  assumes d: "distinct (map fst L)"
    and m: "\<And>t v. (t, v) \<in> set L \<longleftrightarrow> t \<in> T \<and> v = f t"
  shows "distinct (map fst (nlargest n L))"
    and "fst ` set (nlargest n L) \<subseteq> T"
    and "length (nlargest n L) = min n (card T)"
    and "card (fst ` set (nlargest n L)) = min n (card T)"
    and "\<And>t v. (t, v) \<in> set (nlargest n L) \<Longrightarrow> v = f t"
    and "\<And>k t. k \<in> fst ` set (nlargest n L) \<Longrightarrow> t \<in> T \<Longrightarrow>
           t \<notin> fst ` set (nlargest n L) \<Longrightarrow> sint (f t) \<le> sint (f k)"
proof -
  show dn: "distinct (map fst (nlargest n L))"
    using d by (rule nlargest_distinct)
  have sub: "set (nlargest n L) \<subseteq> set L" by (rule nlargest_subset)
  show "fst ` set (nlargest n L) \<subseteq> T"
    using sub m by fastforce
  have "fst ` set L = T"
    using m by force
  then have "card T = length (map fst L)"
    using d distinct_card [of "map fst L"] by simp
  then have len: "length L = card T" by simp
  show ln: "length (nlargest n L) = min n (card T)"
    using nlargest_split(4) [of n L] len by simp
  have "card (fst ` set (nlargest n L)) = length (map fst (nlargest n L))"
    using dn distinct_card [of "map fst (nlargest n L)"] by simp
  then show "card (fst ` set (nlargest n L)) = min n (card T)"
    using ln by simp
  show val: "\<And>t v. (t, v) \<in> set (nlargest n L) \<Longrightarrow> v = f t"
    using sub m by blast
  fix k t
  assume k: "k \<in> fst ` set (nlargest n L)" and t: "t \<in> T"
    and nt: "t \<notin> fst ` set (nlargest n L)"
  from k obtain v where kv: "(k, v) \<in> set (nlargest n L)" by force
  then have v: "v = f k" by (rule val)
  from t have "(t, f t) \<in> set L" using m by simp
  then have "sint (f t) \<le> sint v"
    using nlargest_dominates [OF d kv _ nt] by blast
  then show "sint (f t) \<le> sint (f k)" using v by simp
qed

lemma tool_pairs_total:
  "key_total (map (\<lambda>r. (rt_tool_name (cols r), rt_count (cols r))) rows) t = tool_total rows t"
  by (simp add: key_total_def tool_total_def filter_map comp_def)

lemma tool_date_pairs_total:
  "key_total (map (\<lambda>r. ((rt_tool_name (cols r), crawl_date r), rt_count (cols r))) rows) (t, d)
     = tool_date_total rows t d"
  by (simp add: key_total_def tool_date_total_def filter_map comp_def)

lemma bar_totals_member:
  "(t, v) \<in> set (groupby_sum (map (\<lambda>r. (rt_tool_name (cols r), rt_count (cols r))) rows))
     \<longleftrightarrow> t \<in> tools_in rows \<and> v = tool_total rows t"
  by (auto simp: groupby_sum_member tool_pairs_total tools_in_def image_iff)

lemma line_totals_member:
  fixes rows :: "(role_tool_fields, 'c::linorder) frame"
  defines "grouped \<equiv>
     groupby_sum (map (\<lambda>r. ((rt_tool_name (cols r), crawl_date r), rt_count (cols r))) rows)"
  shows "(t, v) \<in> set (groupby_sum (map (\<lambda>kv. (fst (fst kv), snd kv)) grouped))
     \<longleftrightarrow> t \<in> tools_in rows \<and> v = tool_total rows t"
proof -
  let ?kv2 = "map (\<lambda>r. ((rt_tool_name (cols r), crawl_date r), rt_count (cols r))) rows"
  have keys: "fst ` set (map (\<lambda>kv. (fst (fst kv), snd kv)) grouped) = tools_in rows"
  proof -
    have "fst ` set (map (\<lambda>kv. (fst (fst kv), snd kv)) grouped) = fst ` fst ` set grouped"
      by (simp add: image_image)
    also have "\<dots> = fst ` fst ` set ?kv2"
      by (simp add: grouped_def groupby_sum_key_set)
    also have "\<dots> = tools_in rows"
      by (simp add: tools_in_def image_image)
    finally show ?thesis .
  qed
  have "key_total (map (\<lambda>kv. (fst (fst kv), snd kv)) grouped) t
      = sum_list (map snd (filter (\<lambda>kv. fst (fst kv) = t) grouped))"
    by (simp add: key_total_def filter_map comp_def)
  also have "\<dots> = sum_list (map snd (filter (\<lambda>kv. fst (fst kv) = t) ?kv2))"
    unfolding grouped_def by (rule groupby_sum_filter_total [of "\<lambda>k. fst k = t"])
  also have "\<dots> = tool_total rows t"
    by (simp add: tool_total_def filter_map comp_def)
  finally have tot: "key_total (map (\<lambda>kv. (fst (fst kv), snd kv)) grouped) t
      = tool_total rows t" .
  show ?thesis
    unfolding groupby_sum_member keys tot ..
qed

lemma grouped_member:
  fixes rows :: "(role_tool_fields, 'c::linorder) frame"
  shows "((t, d), c) \<in> set (groupby_sum
            (map (\<lambda>r. ((rt_tool_name (cols r), crawl_date r), rt_count (cols r))) rows))
     \<longleftrightarrow> (\<exists>r \<in> set rows. rt_tool_name (cols r) = t \<and> crawl_date r = d)
         \<and> c = tool_date_total rows t d"
  by (auto simp: groupby_sum_member tool_date_pairs_total image_iff)

lemma select_rows_filter:
  "select_rows tbl role cat =
     filter (\<lambda>r. (role = ''All'' \<or> rt_data_role (cols r) = role)
                \<and> (cat = ''All'' \<or> rt_category (cols r) = cat)) tbl"
  by (simp add: select_rows_def)

lemma line_chart_kept:
  fixes tbl :: "(role_tool_fields, 'c::linorder) frame" and role cat :: string
  defines "sel \<equiv> select_rows tbl role cat"
  defines "grouped \<equiv>
     groupby_sum (map (\<lambda>r. ((rt_tool_name (cols r), crawl_date r), rt_count (cols r))) sel)"
  defines "best \<equiv> nlargest 10 (groupby_sum (map (\<lambda>kv. (fst (fst kv), snd kv)) grouped))"
  assumes rows: "tbl \<noteq> []"
  shows "create_tool_trends_line_chart tbl role cat
           = Inr (filter (\<lambda>kv. fst (fst kv) \<in> fst ` set best) grouped)"
    and "fst ` fst ` set (projr (create_tool_trends_line_chart tbl role cat)) = fst ` set best"
proof -
  show eq: "create_tool_trends_line_chart tbl role cat
           = Inr (filter (\<lambda>kv. fst (fst kv) \<in> fst ` set best) grouped)"
    using rows
    by (simp add: create_tool_trends_line_chart_def Let_def sel_def grouped_def best_def)
  have sub: "fst ` set best \<subseteq> tools_in sel"
    unfolding best_def grouped_def
    by (rule top_n_of_totals(2) [OF groupby_sum_distinct line_totals_member])
  have "fst ` fst ` set (filter (\<lambda>kv. fst (fst kv) \<in> fst ` set best) grouped) = fst ` set best"
  proof (intro equalityI subsetI)
    fix t assume "t \<in> fst ` fst ` set (filter (\<lambda>kv. fst (fst kv) \<in> fst ` set best) grouped)"
    then show "t \<in> fst ` set best" by force
  next
    fix t assume t: "t \<in> fst ` set best"
    then have "t \<in> tools_in sel" using sub by blast
    then obtain r where r: "r \<in> set sel" "rt_tool_name (cols r) = t"
      by (auto simp: tools_in_def)
    then have "((t, crawl_date r), tool_date_total sel t (crawl_date r)) \<in> set grouped"
      unfolding grouped_def grouped_member by blast
    then have "((t, crawl_date r), tool_date_total sel t (crawl_date r))
        \<in> set (filter (\<lambda>kv. fst (fst kv) \<in> fst ` set best) grouped)"
      using t by simp
    then show "t \<in> fst ` fst ` set (filter (\<lambda>kv. fst (fst kv) \<in> fst ` set best) grouped)"
      by force
  qed
  then show "fst ` fst ` set (projr (create_tool_trends_line_chart tbl role cat)) = fst ` set best"
    by (simp only: eq sum.sel)
qed

lemma sint_sum_list:
  "sint (sum_list ws :: 64 word) = signed_take_bit 63 (sum_list (map sint ws))"
proof -
  have "word_of_int (sum_list (map sint ws)) = (sum_list ws :: 64 word)"
    by (induction ws) simp_all
  then have "sint (sum_list ws :: 64 word)
      = sint (word_of_int (sum_list (map sint ws)) :: 64 word)"
    by simp
  also have "\<dots> = signed_take_bit 63 (sum_list (map sint ws))"
    by (simp add: signed_of_int)
  finally show ?thesis .
qed

lemma tool_total_exact:
  assumes "- (2 ^ 63) \<le> exact_total rows t" and "exact_total rows t < 2 ^ 63"
  shows "sint (tool_total rows t) = exact_total rows t"
proof -
  have "sint (tool_total rows t) = signed_take_bit 63 (exact_total rows t)"
    by (simp add: tool_total_def exact_total_def sint_sum_list comp_def)
  then show ?thesis
    using assms by (simp add: signed_take_bit_int_eq_self)
qed

lemma no_overflow_exact:
  assumes "no_overflow rows" and "t \<in> tools_in rows"
  shows "sint (tool_total rows t) = exact_total rows t"
proof -
  from assms obtain r where "r \<in> set rows" and "rt_tool_name (cols r) = t"
    by (auto simp: tools_in_def)
  with assms(1) have "- (2 ^ 63) \<le> exact_total rows t \<and> exact_total rows t < 2 ^ 63"
    by (auto simp: no_overflow_def list_all_iff)
  then show ?thesis by (simp add: tool_total_exact)
qed

text \<open>
  Claim C8 (top-10 and top-5 tools), as amended. On a frame with rows neither function
  raises, and each of the two filters is applied only when its selection is not \<open>All\<close>.
  The line-chart data has one row per tool and crawl date of the selected rows, carrying
  the \<open>int64\<close> sum of their counts, for exactly the kept tools; the kept tools are 10
  of the tools of the selected rows (all of them when there are at most 10), and no tool
  left out has a larger \<open>int64\<close> total over all crawl dates than a kept tool. The
  bar-chart data has one row per tool with its \<open>int64\<close> total, for 5 of the tools (all
  when there are at most 5), and no tool left out has a larger \<open>int64\<close> total than a
  kept one. When no total of the selected rows leaves the range of \<open>int64\<close>, the
  \<open>int64\<close> totals are the sums of the counts, and no tool left out has a larger sum of
  counts than a kept one.
\<close>

theorem tool_chart_reductions:
  fixes tbl :: "(role_tool_fields, 'c::linorder) frame" and role cat :: string
  defines "sel \<equiv> select_rows tbl role cat"
  defines "line \<equiv> projr (create_tool_trends_line_chart tbl role cat)"
  defines "bar \<equiv> projr (create_tool_popularity_bar_chart tbl role cat)"
  defines "kept \<equiv> fst ` fst ` set line"
  assumes rows: "tbl \<noteq> []"
  shows
  "create_tool_trends_line_chart tbl role cat = Inr line
   \<and> create_tool_popularity_bar_chart tbl role cat = Inr bar
   \<and> sel = filter (\<lambda>r. (role = ''All'' \<or> rt_data_role (cols r) = role)
                     \<and> (cat = ''All'' \<or> rt_category (cols r) = cat)) tbl
   \<and> distinct (map fst line)
   \<and> (\<forall>t d c. ((t, d), c) \<in> set line \<longleftrightarrow>
         t \<in> kept \<and> (\<exists>r \<in> set sel. rt_tool_name (cols r) = t \<and> crawl_date r = d)
         \<and> c = tool_date_total sel t d)
   \<and> kept \<subseteq> tools_in sel
   \<and> card kept = min 10 (card (tools_in sel))
   \<and> (\<forall>k \<in> kept. \<forall>t \<in> tools_in sel - kept.
         sint (tool_total sel t) \<le> sint (tool_total sel k))
   \<and> distinct (map fst bar)
   \<and> fst ` set bar \<subseteq> tools_in sel
   \<and> length bar = min 5 (card (tools_in sel))
   \<and> (\<forall>(t, v) \<in> set bar. v = tool_total sel t)
   \<and> (\<forall>k \<in> fst ` set bar. \<forall>t \<in> tools_in sel - fst ` set bar.
         sint (tool_total sel t) \<le> sint (tool_total sel k))
   \<and> (no_overflow sel \<longrightarrow>
         (\<forall>t \<in> tools_in sel. sint (tool_total sel t) = exact_total sel t)
         \<and> (\<forall>k \<in> kept. \<forall>t \<in> tools_in sel - kept. exact_total sel t \<le> exact_total sel k)
         \<and> (\<forall>k \<in> fst ` set bar. \<forall>t \<in> tools_in sel - fst ` set bar.
               exact_total sel t \<le> exact_total sel k))"
proof -
  define grouped where "grouped =
     groupby_sum (map (\<lambda>r. ((rt_tool_name (cols r), crawl_date r), rt_count (cols r))) sel)"
  define totals where "totals = groupby_sum (map (\<lambda>kv. (fst (fst kv), snd kv)) grouped)"
  define best where "best = nlargest 10 totals"
  define single where
    "single = groupby_sum (map (\<lambda>r. (rt_tool_name (cols r), rt_count (cols r))) sel)"
  have line_inr: "create_tool_trends_line_chart tbl role cat
      = Inr (filter (\<lambda>kv. fst (fst kv) \<in> fst ` set best) grouped)"
    unfolding best_def totals_def grouped_def sel_def using rows by (rule line_chart_kept(1))
  then have line_eq: "line = filter (\<lambda>kv. fst (fst kv) \<in> fst ` set best) grouped"
    by (simp add: line_def)
  have kept_eq: "kept = fst ` set best"
    unfolding kept_def line_def best_def totals_def grouped_def sel_def
    using rows by (rule line_chart_kept(2))
  have bar_inr: "create_tool_popularity_bar_chart tbl role cat = Inr (nlargest 5 single)"
    using rows
    by (simp add: create_tool_popularity_bar_chart_def Let_def single_def sel_def)
  then have bar_eq: "bar = nlargest 5 single"
    by (simp add: bar_def)
  have totals_d: "distinct (map fst totals)"
    unfolding totals_def by (rule groupby_sum_distinct)
  have totals_m: "\<And>t v. (t, v) \<in> set totals \<longleftrightarrow> t \<in> tools_in sel \<and> v = tool_total sel t"
    unfolding totals_def grouped_def by (rule line_totals_member)
  have single_d: "distinct (map fst single)"
    unfolding single_def by (rule groupby_sum_distinct)
  have single_m: "\<And>t v. (t, v) \<in> set single \<longleftrightarrow> t \<in> tools_in sel \<and> v = tool_total sel t"
    unfolding single_def by (rule bar_totals_member)
  note T = top_n_of_totals [OF totals_d totals_m, where n = 10, folded best_def]
  note B = top_n_of_totals [OF single_d single_m, where n = 5, folded bar_eq]
  have c0: "create_tool_trends_line_chart tbl role cat = Inr line"
    using line_inr line_eq by simp
  have c0': "create_tool_popularity_bar_chart tbl role cat = Inr bar"
    using bar_inr bar_eq by simp
  have c1: "sel = filter (\<lambda>r. (role = ''All'' \<or> rt_data_role (cols r) = role)
                     \<and> (cat = ''All'' \<or> rt_category (cols r) = cat)) tbl"
    unfolding sel_def by (rule select_rows_filter)
  have c2: "distinct (map fst line)"
    unfolding line_eq grouped_def by (simp add: distinct_map_filter groupby_sum_distinct)
  have c3: "\<forall>t d c. ((t, d), c) \<in> set line \<longleftrightarrow>
         t \<in> kept \<and> (\<exists>r \<in> set sel. rt_tool_name (cols r) = t \<and> crawl_date r = d)
         \<and> c = tool_date_total sel t d"
    unfolding line_eq kept_eq grouped_def by (auto simp: grouped_member)
  have c4: "kept \<subseteq> tools_in sel"
    unfolding kept_eq by (rule T(2))
  have c5: "card kept = min 10 (card (tools_in sel))"
    unfolding kept_eq by (rule T(4))
  have c6: "\<forall>k \<in> kept. \<forall>t \<in> tools_in sel - kept.
         sint (tool_total sel t) \<le> sint (tool_total sel k)"
    unfolding kept_eq using T(6) by blast
  have c7: "distinct (map fst bar)" by (rule B(1))
  have c8: "fst ` set bar \<subseteq> tools_in sel" by (rule B(2))
  have c9: "length bar = min 5 (card (tools_in sel))" by (rule B(3))
  have c10: "\<forall>(t, v) \<in> set bar. v = tool_total sel t"
    using B(5) by blast
  have c11: "\<forall>k \<in> fst ` set bar. \<forall>t \<in> tools_in sel - fst ` set bar.
         sint (tool_total sel t) \<le> sint (tool_total sel k)"
    using B(6) by blast
  have c12: "no_overflow sel \<longrightarrow>
         (\<forall>t \<in> tools_in sel. sint (tool_total sel t) = exact_total sel t)
         \<and> (\<forall>k \<in> kept. \<forall>t \<in> tools_in sel - kept. exact_total sel t \<le> exact_total sel k)
         \<and> (\<forall>k \<in> fst ` set bar. \<forall>t \<in> tools_in sel - fst ` set bar.
               exact_total sel t \<le> exact_total sel k)"
  proof
    assume n: "no_overflow sel"
    then have e: "\<forall>t \<in> tools_in sel. sint (tool_total sel t) = exact_total sel t"
      by (simp add: no_overflow_exact)
    have "\<forall>k \<in> kept. \<forall>t \<in> tools_in sel - kept. exact_total sel t \<le> exact_total sel k"
    proof (intro ballI)
      fix k t assume k: "k \<in> kept" and t: "t \<in> tools_in sel - kept"
      then have "sint (tool_total sel t) \<le> sint (tool_total sel k)" using c6 by blast
      moreover have "k \<in> tools_in sel" using k c4 by blast
      ultimately show "exact_total sel t \<le> exact_total sel k" using e t by simp
    qed
    moreover have "\<forall>k \<in> fst ` set bar. \<forall>t \<in> tools_in sel - fst ` set bar.
               exact_total sel t \<le> exact_total sel k"
    proof (intro ballI)
      fix k t assume k: "k \<in> fst ` set bar" and t: "t \<in> tools_in sel - fst ` set bar"
      then have "sint (tool_total sel t) \<le> sint (tool_total sel k)" using c11 by blast
      moreover have "k \<in> tools_in sel" using k c8 by blast
      ultimately show "exact_total sel t \<le> exact_total sel k" using e t by simp
    qed
    ultimately show "(\<forall>t \<in> tools_in sel. sint (tool_total sel t) = exact_total sel t)
         \<and> (\<forall>k \<in> kept. \<forall>t \<in> tools_in sel - kept. exact_total sel t \<le> exact_total sel k)
         \<and> (\<forall>k \<in> fst ` set bar. \<forall>t \<in> tools_in sel - fst ` set bar.
               exact_total sel t \<le> exact_total sel k)"
      using e by simp
  qed
  show ?thesis
    using c0 c0' c1 c2 c3 c4 c5 c6 c7 c8 c9 c10 c11 c12 by (intro conjI)
qed

lemma twelve_tools_line:
  "create_tool_trends_line_chart twelve_tools ''All'' ''All''
     = Inr [((''AWS'', 2024, 4, 8), 110), ((''Airflow'', 2024, 4, 8), 85),
        ((''Docker'', 2024, 4, 8), 75), ((''Excel'', 2024, 4, 8), 140),
        ((''Java'', 2024, 4, 8), 95), ((''Python'', 2024, 4, 1), 110),
        ((''Python'', 2024, 4, 8), 70), ((''R'', 2024, 4, 8), 100),
        ((''SQL'', 2024, 4, 1), 90), ((''SQL'', 2024, 4, 8), 80),
        ((''Spark'', 2024, 4, 8), 120), ((''Tableau'', 2024, 4, 8), 130)]"
  by (simp add: create_tool_trends_line_chart_def select_rows_def groupby_sum_def
      nlargest_def twelve_tools_def tool_row_def)

lemma twelve_tools_bar:
  "create_tool_popularity_bar_chart twelve_tools ''All'' ''All''
     = Inr [(''Python'', 180), (''SQL'', 170), (''Excel'', 140), (''Tableau'', 130),
            (''Spark'', 120)]"
  by (simp add: create_tool_popularity_bar_chart_def select_rows_def groupby_sum_def
      nlargest_def twelve_tools_def tool_row_def)

lemma twelve_tools_names:
  "tools_in (select_rows twelve_tools ''All'' ''All'')
     = {''Python'', ''SQL'', ''Excel'', ''Tableau'', ''Spark'', ''AWS'', ''R'', ''Java'',
        ''Airflow'', ''Docker'', ''Scala'', ''SAS''}"
  by (auto simp: tools_in_def select_rows_def twelve_tools_def tool_row_def)

lemma twelve_tools_no_overflow: "no_overflow (select_rows twelve_tools ''All'' ''All'')"
  by (simp add: no_overflow_def exact_total_def select_rows_def twelve_tools_def tool_row_def)

theorem tool_chart_reductions_witness:
  "twelve_tools \<noteq> []
   \<and> no_overflow (select_rows twelve_tools ''All'' ''All'')
   \<and> card (tools_in (select_rows twelve_tools ''All'' ''All'')) = 12
   \<and> fst ` fst ` set (projr (create_tool_trends_line_chart twelve_tools ''All'' ''All''))
       = {''Python'', ''SQL'', ''Excel'', ''Tableau'', ''Spark'', ''AWS'', ''R'', ''Java'',
          ''Airflow'', ''Docker''}
   \<and> card (fst ` fst ` set (projr (create_tool_trends_line_chart twelve_tools ''All'' ''All'')))
       = 10
   \<and> create_tool_popularity_bar_chart twelve_tools ''All'' ''All''
       = Inr [(''Python'', 180), (''SQL'', 170), (''Excel'', 140), (''Tableau'', 130),
              (''Spark'', 120)]
   \<and> exact_total (select_rows twelve_tools ''All'' ''All'') ''Scala''
       \<le> exact_total (select_rows twelve_tools ''All'' ''All'') ''Docker''"
proof -
  have r: "twelve_tools \<noteq> []"
    by (simp add: twelve_tools_def)
  have c: "card (tools_in (select_rows twelve_tools ''All'' ''All'')) = 12"
    by (simp add: twelve_tools_names)
  have k: "fst ` fst ` set (projr (create_tool_trends_line_chart twelve_tools ''All'' ''All''))
       = {''Python'', ''SQL'', ''Excel'', ''Tableau'', ''Spark'', ''AWS'', ''R'', ''Java'',
          ''Airflow'', ''Docker''}"
    by (auto simp: twelve_tools_line)
  have "''Scala'' \<in> tools_in (select_rows twelve_tools ''All'' ''All'')
          - fst ` fst ` set (projr (create_tool_trends_line_chart twelve_tools ''All'' ''All''))"
    and "''Docker''
          \<in> fst ` fst ` set (projr (create_tool_trends_line_chart twelve_tools ''All'' ''All''))"
    unfolding k twelve_tools_names by simp_all
  then have d: "exact_total (select_rows twelve_tools ''All'' ''All'') ''Scala''
       \<le> exact_total (select_rows twelve_tools ''All'' ''All'') ''Docker''"
    using tool_chart_reductions [OF r, of "''All''" "''All''"] twelve_tools_no_overflow by blast
  have "card (fst ` fst ` set (projr (create_tool_trends_line_chart twelve_tools ''All'' ''All'')))
       = 10"
    using tool_chart_reductions [OF r, of "''All''" "''All''"] c by simp
  then show ?thesis
    using r c k d twelve_tools_bar twelve_tools_no_overflow by simp
qed

text \<open>
  Claim C8 as stated holds for every frame and for the sums of the counts. On the frame
  without rows and columns that \<open>fetch_tool_by_data_role\<close> returns when it has no data,
  both functions raise \<open>KeyError\<close>. On a frame whose two counts of Python are
  \<open>2 ^ 62\<close> each, Python has the largest sum of counts of the eleven tools, its
  \<open>int64\<close> total wraps around to \<open>- 2 ^ 63\<close>, and Python is the one tool that the
  line chart leaves out; the bar chart keeps five other tools.
\<close>

theorem tool_charts_raise_or_wrap:
  "create_tool_trends_line_chart ([] :: (role_tool_fields, date) frame) ''All'' ''All''
     = Inl KeyError
   \<and> create_tool_popularity_bar_chart ([] :: (role_tool_fields, date) frame) ''All'' ''All''
       = Inl KeyError
   \<and> tools_in (select_rows wrapping_tools ''All'' ''All'')
       = {''Python'', ''SQL'', ''Excel'', ''Tableau'', ''Spark'', ''AWS'', ''R'', ''Java'',
          ''Airflow'', ''Docker'', ''Scala''}
   \<and> exact_total (select_rows wrapping_tools ''All'' ''All'') ''Python'' = 2 ^ 63
   \<and> exact_total (select_rows wrapping_tools ''All'' ''All'') ''Excel'' = 140
   \<and> exact_total (select_rows wrapping_tools ''All'' ''All'') ''Scala'' = 20
   \<and> sint (tool_total (select_rows wrapping_tools ''All'' ''All'') ''Python'') = - (2 ^ 63)
   \<and> create_tool_trends_line_chart wrapping_tools ''All'' ''All''
       = Inr [((''AWS'', 2024, 4, 8), 110), ((''Airflow'', 2024, 4, 8), 85),
              ((''Docker'', 2024, 4, 8), 75), ((''Excel'', 2024, 4, 8), 140),
              ((''Java'', 2024, 4, 8), 95), ((''R'', 2024, 4, 8), 100),
              ((''SQL'', 2024, 4, 8), 90), ((''Scala'', 2024, 4, 8), 20),
              ((''Spark'', 2024, 4, 8), 120), ((''Tableau'', 2024, 4, 8), 130)]
   \<and> create_tool_popularity_bar_chart wrapping_tools ''All'' ''All''
       = Inr [(''Excel'', 140), (''Tableau'', 130), (''Spark'', 120), (''AWS'', 110),
              (''R'', 100)]"
proof -
  have names: "tools_in (select_rows wrapping_tools ''All'' ''All'')
       = {''Python'', ''SQL'', ''Excel'', ''Tableau'', ''Spark'', ''AWS'', ''R'', ''Java'',
          ''Airflow'', ''Docker'', ''Scala''}"
    by (auto simp: tools_in_def select_rows_def wrapping_tools_def tool_row_def)
  have exact: "exact_total (select_rows wrapping_tools ''All'' ''All'') ''Python'' = 2 ^ 63"
    "exact_total (select_rows wrapping_tools ''All'' ''All'') ''Excel'' = 140"
    "exact_total (select_rows wrapping_tools ''All'' ''All'') ''Scala'' = 20"
    by (simp_all add: exact_total_def select_rows_def wrapping_tools_def tool_row_def)
  have wrapped: "sint (tool_total (select_rows wrapping_tools ''All'' ''All'') ''Python'')
       = - (2 ^ 63)"
    by (simp add: tool_total_def select_rows_def wrapping_tools_def tool_row_def)
  have line: "create_tool_trends_line_chart wrapping_tools ''All'' ''All''
       = Inr [((''AWS'', 2024, 4, 8), 110), ((''Airflow'', 2024, 4, 8), 85),
              ((''Docker'', 2024, 4, 8), 75), ((''Excel'', 2024, 4, 8), 140),
              ((''Java'', 2024, 4, 8), 95), ((''R'', 2024, 4, 8), 100),
              ((''SQL'', 2024, 4, 8), 90), ((''Scala'', 2024, 4, 8), 20),
              ((''Spark'', 2024, 4, 8), 120), ((''Tableau'', 2024, 4, 8), 130)]"
    by (simp add: create_tool_trends_line_chart_def select_rows_def groupby_sum_def
        nlargest_def wrapping_tools_def tool_row_def)
  have bar: "create_tool_popularity_bar_chart wrapping_tools ''All'' ''All''
       = Inr [(''Excel'', 140), (''Tableau'', 130), (''Spark'', 120), (''AWS'', 110),
              (''R'', 100)]"
    by (simp add: create_tool_popularity_bar_chart_def select_rows_def groupby_sum_def
        nlargest_def wrapping_tools_def tool_row_def)
  have empty: "create_tool_trends_line_chart ([] :: (role_tool_fields, date) frame)
        ''All'' ''All'' = Inl KeyError"
    "create_tool_popularity_bar_chart ([] :: (role_tool_fields, date) frame) ''All'' ''All''
       = Inl KeyError"
    by (simp_all add: create_tool_trends_line_chart_def create_tool_popularity_bar_chart_def)
  show ?thesis
    using names exact wrapped line bar empty by (intro conjI)
qed

end
